theory Spec2Isabelle
  imports Main "HOL-Library.Multiset"
begin

section \<open>JavaScript values\<close>

text \<open>
  The pipeline reads JSON objects. A property that may be missing is an \<open>option\<close>
  (\<open>None\<close> is JavaScript's \<open>undefined\<close>); strings are \<open>string\<close>. A string
  property is truthy when it is present and not empty. A \<open>Date\<close> built from a property
  is an instant, the milliseconds since the epoch, or the Invalid Date that a missing,
  unparsable or out-of-range value gives.
\<close>

datatype dateValue = Instant int | InvalidDate

datatype error = Error string | TypeError | RangeError

abbreviation newline :: string where
  "newline \<equiv> [CHR 0x0A]"

definition truthy :: "string option \<Rightarrow> bool" where
  "truthy v = (case v of None \<Rightarrow> False | Some s \<Rightarrow> s \<noteq> [])"

text \<open>\<open>a || b\<close> on string properties.\<close>

definition orElse :: "string option \<Rightarrow> string option \<Rightarrow> string option" where
  "orElse a b = (if truthy a then a else b)"

text \<open>\<open>v || ''\<close>.\<close>

definition orEmpty :: "string option \<Rightarrow> string" where
  "orEmpty v = (case v of None \<Rightarrow> [] | Some s \<Rightarrow> s)"

text \<open>A property inside a template literal: \<open>`${v}`\<close>.\<close>

definition render :: "string option \<Rightarrow> string" where
  "render v = (case v of None \<Rightarrow> ''undefined'' | Some s \<Rightarrow> s)"

text \<open>\<open>Array.prototype.join\<close> on an array of strings.\<close>

fun joinWith :: "string \<Rightarrow> string list \<Rightarrow> string" where
  "joinWith sep [] = []"
| "joinWith sep [x] = x"
| "joinWith sep (x # y # ys) = x @ sep @ joinWith sep (y # ys)"

subsection \<open>Objects used as dictionaries\<close>

text \<open>
  An object literal \<open>{}\<close> filled by assignments \<open>obj[key] = v\<close> is the list of its own
  properties in the order in which \<open>Object.entries\<close> and \<open>JSON.stringify\<close> enumerate
  them: the keys that are array indices (canonical decimal numerals up to
  \<open>2^32 - 2\<close>) first, in ascending numeric order, then the other keys in the order of
  their creation. An assignment to an existing key keeps its place.
\<close>

definition isDigit :: "char \<Rightarrow> bool" where
  "isDigit c = (c \<in> set ''0123456789'')"

definition decimalValue :: "string \<Rightarrow> nat" where
  "decimalValue k = foldl (\<lambda>n c. 10 * n + (of_char c - 48)) 0 k"

definition arrayIndex :: "string \<Rightarrow> nat option" where
  "arrayIndex k =
     (case k of
        [] \<Rightarrow> None
      | c # cs \<Rightarrow>
          if list_all isDigit k \<and> (cs = [] \<or> c \<noteq> CHR ''0'') \<and> decimalValue k \<le> 4294967294
          then Some (decimalValue k) else None)"

fun updateKey :: "(string \<times> 'v) list \<Rightarrow> string \<Rightarrow> 'v \<Rightarrow> (string \<times> 'v) list" where
  "updateKey [] key v = []"
| "updateKey ((k, w) # rest) key v =
     (if k = key then (k, v) # rest else (k, w) # updateKey rest key v)"

fun insertIndexKey :: "(string \<times> 'v) list \<Rightarrow> string \<Rightarrow> nat \<Rightarrow> 'v \<Rightarrow> (string \<times> 'v) list" where
  "insertIndexKey [] key i v = [(key, v)]"
| "insertIndexKey ((k, w) # rest) key i v =
     (case arrayIndex k of
        None \<Rightarrow> (key, v) # (k, w) # rest
      | Some j \<Rightarrow>
          if j < i then (k, w) # insertIndexKey rest key i v
          else (key, v) # (k, w) # rest)"

definition setKey :: "(string \<times> 'v) list \<Rightarrow> string \<Rightarrow> 'v \<Rightarrow> (string \<times> 'v) list" where
  "setKey obj key v =
     (if key \<in> set (map fst obj) then updateKey obj key v
      else (case arrayIndex key of
              None \<Rightarrow> obj @ [(key, v)]
            | Some i \<Rightarrow> insertIndexKey obj key i v))"

text \<open>
  A property that an object has not as its own is read from \<open>Object.prototype\<close>. Its
  names in Node are listed here, each with the text that the inherited value (a native
  function, or \<open>Object.prototype\<close> itself under \<open>__proto__\<close>) turns into when it is used
  as a property key. All these values are truthy. An assignment of a string or a number
  to \<open>obj['__proto__']\<close> creates no property.
\<close>

definition objectPrototypeText :: "string \<Rightarrow> string option" where
  "objectPrototypeText name =
     (if name = ''__proto__'' then Some ''[object Object]''
      else if name = ''constructor'' then Some ''function Object() { [native code] }''
      else if name \<in> set [''__defineGetter__'', ''__defineSetter__'', ''hasOwnProperty'',
                            ''__lookupGetter__'', ''__lookupSetter__'', ''isPrototypeOf'',
                            ''propertyIsEnumerable'', ''toString'', ''valueOf'',
                            ''toLocaleString'']
      then Some (''function '' @ name @ ''() { [native code] }'')
      else None)"

section \<open>Data model\<close>

record initiator =
  initiator_type :: "string option"

text \<open>
  \<open>content_completedAt\<close> and \<open>content_answeredAt\<close>: \<open>None\<close> is a falsy property,
  \<open>Some d\<close> a truthy one with \<open>d\<close> the \<open>Date\<close> built from it. \<open>item_timestamp\<close> is the
  \<open>Date\<close> built from the item's \<open>timestamp\<close>.
\<close>

record itemContent =
  content_type :: "string option"
  content_content :: "string option"
  content_subject :: "string option"
  content_bodyPlain :: "string option"
  content_body :: "string option"
  content_completedAt :: "dateValue option"
  content_answeredAt :: "dateValue option"
  content_addedTopicIds :: "string list option"
  content_removedTopicIds :: "string list option"
  content_status :: "string option"
  content_title :: "string option"

record item =
  item_timestamp :: dateValue
  item_initiator :: "initiator option"
  item_content :: "itemContent option"

record contactEntry =
  entry_primary :: bool
  entry_normalized :: "string option"
  entry_original :: "string option"

record customer =
  customer_id :: "string option"
  customer_name :: "string option"
  customer_emails :: "contactEntry list option"
  customer_phones :: "contactEntry list option"
  customer_externalCustomerId :: "string option"

record customAttribute =
  attr_id :: "string option"
  attr_value :: "string option"

record conversation =
  conv_id :: "string option"
  conv_createdAt :: "string option"
  conv_status :: "string option"
  conv_inboxId :: "string option"
  conv_agentId :: "string option"
  conv_customerId :: "string option"
  conv_topicIds :: "string list option"
  conv_customAttributes :: "customAttribute list option"

record transformedCustomer =
  tc_id :: "string option"
  tc_name :: "string option"
  tc_email :: "string option"
  tc_phone :: "string option"
  tc_externalId :: "string option"

record metadata =
  gladly_conversation_id :: "string option"
  inboxId :: "string option"

record agentRef =
  agent_id :: string

record feedbackRecord =
  fb_id :: "string option"
  fb_source :: "string option"
  fb_channel :: "string option"
  fb_timestamp :: "string option"
  fb_status :: "string option"
  fb_metadata :: "metadata option"
  fb_agent :: "agentRef option"
  fb_customer :: "transformedCustomer option"
  fb_tags :: "string list option"
  fb_content :: "string option"
  fb_customAttributes :: "(string \<times> string) list option"

section \<open>The runtime\<close>

text \<open>
  Four computations belong to the JavaScript runtime and not to the repository:
  \<open>Date.prototype.toISOString\<close> on a valid date, the conversion of a number of
  seconds (given here in milliseconds) to text inside a template literal,
  \<open>String.prototype.toLowerCase\<close>, and the order in which \<open>Array.prototype.sort\<close>
  leaves an array when the comparison function is not consistent on it, which
  ECMAScript leaves to the implementation. They are parameters of the model, collected
  in the record \<open>platform\<close>; every theorem holds for every platform.
\<close>

record platform =
  toISOString :: "int \<Rightarrow> string"
  secondsText :: "int \<Rightarrow> string"
  toLowerCase :: "string \<Rightarrow> string"
  unspecifiedOrder :: "item list \<Rightarrow> item list"

section \<open>Transformer\<close>

subsection \<open>Channel inference\<close>

text \<open>The own properties of the constructor's \<open>channelMap\<close>.\<close>

definition channelMap :: "string \<Rightarrow> string option" where
  "channelMap = map_of
     [(''CHAT_MESSAGE'', ''chat''),
      (''EMAIL'', ''email''),
      (''SMS'', ''sms''),
      (''TWITTER'', ''social''),
      (''FACEBOOK_MESSENGER'', ''social''),
      (''INSTAGRAM_DIRECT'', ''social''),
      (''WHATSAPP'', ''messaging''),
      (''PHONE_CALL'', ''voice''),
      (''VOICEMAIL'', ''voice''),
      (''CUSTOMER_ACTIVITY'', ''other'')]"

text \<open>
  \<open>this.channelMap[type] || 'other'\<close>, as the key under which the item is counted: an
  own property of the table, else a property inherited from \<open>Object.prototype\<close> (whose
  value becomes the key as its text), else \<open>other\<close>.
\<close>

definition channelFor :: "string \<Rightarrow> string" where
  "channelFor t =
     (case channelMap t of
        Some channel \<Rightarrow> channel
      | None \<Rightarrow> (case objectPrototypeText t of Some text \<Rightarrow> text | None \<Rightarrow> ''other''))"

text \<open>
  \<open>channelCounts[channel] = (channelCounts[channel] || 0) + 1\<close>. No key that
  \<open>channelFor\<close> gives is an array index or a name that objects inherit (lemma
  \<open>channelFor_plain\<close>), so \<open>channelCounts\<close> holds its keys in the order of their
  creation and a key it has not reads as \<open>undefined\<close>.
\<close>

fun bumpCount :: "(string \<times> nat) list \<Rightarrow> string \<Rightarrow> (string \<times> nat) list" where
  "bumpCount [] channel = [(channel, 1)]"
| "bumpCount ((k, n) # rest) channel =
     (if k = channel then (k, n + 1) # rest else (k, n) # bumpCount rest channel)"

text \<open>The first loop of \<open>_determinePrimaryChannel\<close>, over the items.\<close>

fun countChannels :: "(string \<times> nat) list \<Rightarrow> item list \<Rightarrow> (string \<times> nat) list" where
  "countChannels channelCounts [] = channelCounts"
| "countChannels channelCounts (item # rest) =
     (case item_content item of
        None \<Rightarrow> countChannels channelCounts rest
      | Some c \<Rightarrow>
          (case content_type c of
             None \<Rightarrow> countChannels channelCounts rest
           | Some t \<Rightarrow>
               if t = [] then countChannels channelCounts rest
               else countChannels (bumpCount channelCounts (channelFor t)) rest))"

text \<open>
  The second loop, over \<open>Object.entries(channelCounts)\<close>, with the pair
  \<open>(primaryChannel, maxCount)\<close> as its state.
\<close>

fun pickPrimary :: "string \<times> nat \<Rightarrow> (string \<times> nat) list \<Rightarrow> string \<times> nat" where
  "pickPrimary (primaryChannel, maxCount) [] = (primaryChannel, maxCount)"
| "pickPrimary (primaryChannel, maxCount) ((channel, n) # rest) =
     (if n > maxCount then pickPrimary (channel, n) rest
      else pickPrimary (primaryChannel, maxCount) rest)"

definition determinePrimaryChannel :: "item list option \<Rightarrow> string" where
  "determinePrimaryChannel items =
     (case items of
        None \<Rightarrow> ''other''
      | Some xs \<Rightarrow>
          if xs = [] then ''other''
          else fst (pickPrimary (''other'', 0) (countChannels [] xs)))"

subsection \<open>Customer mapping\<close>

text \<open>
  \<open>entries.find(e => e.primary) || entries[0]\<close>, then \<open>.normalized || .original\<close>;
  the property is set only when the list is present and not empty.
\<close>

definition primaryValue :: "contactEntry list option \<Rightarrow> string option" where
  "primaryValue entries =
     (case entries of
        None \<Rightarrow> None
      | Some [] \<Rightarrow> None
      | Some (e # rest) \<Rightarrow>
          (let chosen = (case find entry_primary (e # rest) of Some p \<Rightarrow> p | None \<Rightarrow> e)
           in orElse (entry_normalized chosen) (entry_original chosen)))"

definition transformCustomer :: "customer \<Rightarrow> transformedCustomer" where
  "transformCustomer c =
     \<lparr> tc_id = customer_id c,
       tc_name = (if truthy (customer_name c) then customer_name c else None),
       tc_email = primaryValue (customer_emails c),
       tc_phone = primaryValue (customer_phones c),
       tc_externalId =
         (if truthy (customer_externalCustomerId c) then customer_externalCustomerId c
          else None) \<rparr>"

subsection \<open>Content assembly\<close>

text \<open>
  The body of the \<open>switch\<close> for one item that has a content and a valid timestamp \<open>t\<close>:
  \<open>Some\<close> of \<open>formattedContent\<close>, or \<open>None\<close> when the \<open>default\<close> branch skips the item.
  The duration of a call is a number when both dates are truthy, \<open>NaN\<close> when one of
  them is not a valid date.
\<close>

definition formatContent :: "platform \<Rightarrow> item \<Rightarrow> int \<Rightarrow> itemContent \<Rightarrow> string option" where
  "formatContent P item t c =
     (let type = content_type c;
          initiatorType =
            (case item_initiator item of
               None \<Rightarrow> ''UNKNOWN''
             | Some i \<Rightarrow> render (initiator_type i));
          stamp = ''['' @ toISOString P t @ ''] ''
      in
        if type = Some ''CHAT_MESSAGE'' then
          Some (stamp @ initiatorType @ '': '' @ orEmpty (content_content c))
        else if type = Some ''EMAIL'' then
          (let subject =
                 (if truthy (content_subject c)
                  then ''Subject: '' @ orEmpty (content_subject c) @ newline else []);
               bodyContent = orEmpty (orElse (content_bodyPlain c) (content_content c))
           in Some (stamp @ initiatorType @ '' - EMAIL:'' @ newline @ subject @ bodyContent))
        else if type = Some ''SMS'' then
          Some (stamp @ initiatorType @ '' - SMS: '' @ orEmpty (content_body c))
        else if type = Some ''PHONE_CALL'' then
          (let duration =
                 (case (content_completedAt c, content_answeredAt c) of
                    (Some (Instant completed), Some (Instant answered)) \<Rightarrow>
                      secondsText P (completed - answered)
                  | (Some _, Some _) \<Rightarrow> ''NaN''
                  | _ \<Rightarrow> ''unknown'')
           in Some (stamp @ initiatorType @ '' - CALL: Duration '' @ duration @ ''s''))
        else if type = Some ''CONVERSATION_NOTE'' then
          Some (stamp @ ''NOTE: '' @ orEmpty (content_body c))
        else if type = Some ''TOPIC_CHANGE'' then
          (let formatted0 = [];
               formatted1 =
                 (case content_addedTopicIds c of
                    None \<Rightarrow> formatted0
                  | Some added \<Rightarrow>
                      if length added > 0
                      then stamp @ ''TOPICS ADDED: '' @ joinWith '', '' added
                      else formatted0);
               formatted2 =
                 (case content_removedTopicIds c of
                    None \<Rightarrow> formatted1
                  | Some removed \<Rightarrow>
                      if length removed > 0
                      then stamp @ ''TOPICS REMOVED: '' @ joinWith '', '' removed
                      else formatted1)
           in Some formatted2)
        else if type = Some ''CONVERSATION_STATUS_CHANGE'' then
          Some (stamp @ ''STATUS CHANGED TO: '' @ orEmpty (content_status c))
        else if type = Some ''CUSTOMER_ACTIVITY'' then
          Some (stamp @ ''ACTIVITY: '' @ orEmpty (content_title c) @ newline
                  @ orEmpty (content_body c))
        else None)"

text \<open>
  One turn of the loop: the block pushed to \<open>contentParts\<close>, if any. An item without
  content is skipped; for an item with content, \<open>toISOString\<close> is called before the
  \<open>switch\<close> and throws a \<open>RangeError\<close> on an Invalid Date; an item of an unknown type is
  skipped, an empty \<open>formattedContent\<close> is not pushed.
\<close>

definition renderItem :: "platform \<Rightarrow> item \<Rightarrow> error + string option" where
  "renderItem P item =
     (case item_content item of
        None \<Rightarrow> Inr None
      | Some c \<Rightarrow>
          (case item_timestamp item of
             InvalidDate \<Rightarrow> Inl RangeError
           | Instant t \<Rightarrow>
               (case formatContent P item t c of
                  None \<Rightarrow> Inr None
                | Some formattedContent \<Rightarrow>
                    if formattedContent = [] then Inr None else Inr (Some formattedContent))))"

fun renderItems :: "platform \<Rightarrow> item list \<Rightarrow> string list \<Rightarrow> error + string list" where
  "renderItems P [] contentParts = Inr contentParts"
| "renderItems P (item # rest) contentParts =
     (case renderItem P item of
        Inl e \<Rightarrow> Inl e
      | Inr None \<Rightarrow> renderItems P rest contentParts
      | Inr (Some formattedContent) \<Rightarrow> renderItems P rest (contentParts @ [formattedContent]))"

text \<open>
  \<open>[...items].sort((a, b) => new Date(a.timestamp) - new Date(b.timestamp))\<close>. The
  difference is \<open>NaN\<close> when one of the dates is invalid, which the sort reads as 0. When
  all dates are valid the comparison function is consistent and the sort, which is stable
  (ECMAScript 2019, Node 11 and later; the README asks for Node 14), is the library's
  stable sort by key. When some date is invalid and the valid ones are all equal, every
  comparison gives 0 and the stable sort leaves the array as it is. In the remaining case
  the comparison function is not consistent and the order is the runtime's.
\<close>

definition instantOf :: "item \<Rightarrow> int" where
  "instantOf item = (case item_timestamp item of Instant t \<Rightarrow> t | InvalidDate \<Rightarrow> 0)"

definition validTimestamp :: "item \<Rightarrow> bool" where
  "validTimestamp item = (item_timestamp item \<noteq> InvalidDate)"

definition sortedItems :: "platform \<Rightarrow> item list \<Rightarrow> item list" where
  "sortedItems P items =
     (if list_all validTimestamp items then sort_key instantOf items
      else (case filter validTimestamp items of
              [] \<Rightarrow> items
            | x # rest \<Rightarrow>
                if list_all (\<lambda>y. instantOf y = instantOf x) rest then items
                else unspecifiedOrder P items))"

definition processConversationItems :: "platform \<Rightarrow> item list option \<Rightarrow> error + string" where
  "processConversationItems P items =
     (case items of
        None \<Rightarrow> Inr []
      | Some xs \<Rightarrow>
          if xs = [] then Inr []
          else (case renderItems P (sortedItems P xs) [] of
                  Inl e \<Rightarrow> Inl e
                | Inr contentParts \<Rightarrow> Inr (joinWith (newline @ newline) contentParts)))"

subsection \<open>Custom attributes and the record\<close>

text \<open>
  \<open>_transformCustomAttributes\<close>; the values of the model are strings, so the assignment
  under the id \<open>__proto__\<close> creates no property.
\<close>

fun transformCustomAttributes ::
  "(string \<times> string) list \<Rightarrow> customAttribute list \<Rightarrow> (string \<times> string) list" where
  "transformCustomAttributes transformed [] = transformed"
| "transformCustomAttributes transformed (attr # rest) =
     (case (attr_id attr, attr_value attr) of
        (Some k, Some v) \<Rightarrow>
          if k \<noteq> [] then
            (if k = ''__proto__'' then transformCustomAttributes transformed rest
             else transformCustomAttributes (setKey transformed k v) rest)
          else transformCustomAttributes transformed rest
      | _ \<Rightarrow> transformCustomAttributes transformed rest)"

text \<open>
  \<open>transformConversation\<close>. Two statements of its body can throw, for the values of the
  model: \<open>conversation.status.toLowerCase()\<close> on a missing status, in the object
  literal, and later \<open>_processConversationItems\<close>; the \<open>catch\<close> logs and rethrows.
\<close>

definition transformConversation ::
  "platform \<Rightarrow> conversation \<Rightarrow> item list option \<Rightarrow> customer option \<Rightarrow> error + feedbackRecord" where
  "transformConversation P conversation items customer =
     (let primaryChannel = determinePrimaryChannel items
      in case conv_status conversation of
           None \<Rightarrow> Inl TypeError
         | Some status \<Rightarrow>
             (case processConversationItems P items of
                Inl e \<Rightarrow> Inl e
              | Inr content \<Rightarrow>
                 Inr \<lparr> fb_id = Some (''gladly_'' @ render (conv_id conversation)),
                       fb_source = Some ''Gladly'',
                       fb_channel = Some primaryChannel,
                       fb_timestamp = conv_createdAt conversation,
                       fb_status = Some (toLowerCase P status),
                       fb_metadata =
                         Some \<lparr> gladly_conversation_id = conv_id conversation,
                                inboxId = conv_inboxId conversation \<rparr>,
                       fb_agent =
                         (case conv_agentId conversation of
                            None \<Rightarrow> None
                          | Some a \<Rightarrow> if a = [] then None else Some \<lparr> agent_id = a \<rparr>),
                       fb_customer = map_option transformCustomer customer,
                       fb_tags =
                         (case conv_topicIds conversation of
                            None \<Rightarrow> None
                          | Some ts \<Rightarrow> if length ts > 0 then Some ts else None),
                       fb_content = Some content,
                       fb_customAttributes =
                         (case conv_customAttributes conversation of
                            None \<Rightarrow> None
                          | Some attrs \<Rightarrow>
                              if length attrs > 0
                              then Some (transformCustomAttributes [] attrs) else None) \<rparr>))"

section \<open>The remote systems and the local state\<close>

text \<open>
  Every HTTP call goes through an axios client. The answer of a remote system to a
  request is a parameter of the model (\<open>env\<close>): a response with its data, or a
  failure with the status of the response (if there is one), its \<open>Location\<close> header
  (if there is one) and the message of the error. For the requests whose failure the
  code does not look into, the answer is the one the caller sees, after the interceptor
  that replays a request answered with 429. For the request of a customer profile, whose
  status and \<open>Location\<close> header \<open>fetchCustomer\<close> reads, \<open>customerEndpoint\<close> is the answer
  of the server to the request for one id (after the same replays), and the redirects
  that the HTTP client follows by itself are modelled below. A request that is never
  answered, or answered with 429 without end, is outside the model. The requests issued are recorded, in order, in
  the \<open>world\<close>, next to the content of the state file. Logging is not modelled.
\<close>

datatype request =
    GetOrganization
  | GetStatus
  | GetConversations int int int nat
  | GetItems string
  | GetCustomer string
  | PostFeedback feedbackRecord
  | PostFeedbackBatch "feedbackRecord list"

datatype 'a httpResult =
    Response 'a
  | Failure "nat option" "string option" string

record importState =
  lastImportTime :: int
  updatedAt :: int

record env =
  organizationEndpoint :: "unit httpResult"
  statusEndpoint :: "unit httpResult"
  conversationsEndpoint :: "int \<Rightarrow> int \<Rightarrow> int \<Rightarrow> nat \<Rightarrow> conversation list option httpResult"
  itemsEndpoint :: "string \<Rightarrow> item list option httpResult"
  customerEndpoint :: "string \<Rightarrow> customer option httpResult"
  feedbackEndpoint :: "feedbackRecord \<Rightarrow> string httpResult"
  batchEndpoint :: "feedbackRecord list \<Rightarrow> string httpResult"
  stateFileWritable :: bool
  configBatchSize :: "nat option"
  clockStart :: int
  clockDefaultStart :: int
  clockNow :: int
  clockWrite :: int
  clockEnd :: int

record world =
  requests :: "request list"
  stateFile :: "importState option"

definition send :: "world \<Rightarrow> request \<Rightarrow> world" where
  "send w r = w\<lparr> requests := requests w @ [r] \<rparr>"

section \<open>EnterpretClient\<close>

text \<open>
  \<open>_validateFeedbackData\<close> throws \<open>new Error(message)\<close> or returns nothing: \<open>Inl\<close>
  holds the message.
\<close>

definition validateFeedbackData :: "feedbackRecord \<Rightarrow> string + unit" where
  "validateFeedbackData d =
     (if \<not> truthy (fb_id d) then
        Inl ''Feedback data missing required field: id''
      else if \<not> truthy (fb_source d) then
        Inl ''Feedback data missing required field: source''
      else if \<not> truthy (fb_timestamp d) then
        Inl ''Feedback data missing required field: timestamp''
      else if \<not> truthy (fb_content d) \<and> fb_metadata d = None then
        Inl ''Feedback data must have either content or metadata''
      else Inr ())"

definition EnterpretClient_importFeedback ::
  "env \<Rightarrow> feedbackRecord \<Rightarrow> world \<Rightarrow> (error + string) \<times> world" where
  "EnterpretClient_importFeedback E feedbackData w =
     (case validateFeedbackData feedbackData of
        Inl m \<Rightarrow> (Inl (Error (''Failed to import feedback: '' @ m)), w)
      | Inr _ \<Rightarrow>
          (case feedbackEndpoint E feedbackData of
             Response d \<Rightarrow> (Inr d, send w (PostFeedback feedbackData))
           | Failure _ _ m \<Rightarrow>
               (Inl (Error (''Failed to import feedback: '' @ m)),
                send w (PostFeedback feedbackData))))"

text \<open>\<open>feedbackItems.forEach(item => this._validateFeedbackData(item))\<close>.\<close>

fun validateAll :: "feedbackRecord list \<Rightarrow> string + unit" where
  "validateAll [] = Inr ()"
| "validateAll (d # rest) =
     (case validateFeedbackData d of Inl m \<Rightarrow> Inl m | Inr _ \<Rightarrow> validateAll rest)"

definition EnterpretClient_importFeedbackBatch ::
  "env \<Rightarrow> feedbackRecord list option \<Rightarrow> world \<Rightarrow> (error + string) \<times> world" where
  "EnterpretClient_importFeedbackBatch E feedbackItems w =
     (case feedbackItems of
        None \<Rightarrow>
          (Inl (Error (''Failed to import feedback batch: ''
                  @ ''No feedback items provided for batch import'')), w)
      | Some ds \<Rightarrow>
          if length ds = 0 then
            (Inl (Error (''Failed to import feedback batch: ''
                    @ ''No feedback items provided for batch import'')), w)
          else
            (case validateAll ds of
               Inl m \<Rightarrow> (Inl (Error (''Failed to import feedback batch: '' @ m)), w)
             | Inr _ \<Rightarrow>
                 (case batchEndpoint E ds of
                    Response d \<Rightarrow> (Inr d, send w (PostFeedbackBatch ds))
                  | Failure _ _ m \<Rightarrow>
                      (Inl (Error (''Failed to import feedback batch: '' @ m)),
                       send w (PostFeedbackBatch ds)))))"

section \<open>GladlyClient\<close>

text \<open>
  \<open>fetchConversations\<close>. The walk over the export jobs and their files is one logical
  request; its answer holds the conversations parsed from the files, or no array.
\<close>

definition GladlyClient_fetchConversations ::
  "env \<Rightarrow> int \<Rightarrow> int \<Rightarrow> nat \<Rightarrow> nat \<Rightarrow> world \<Rightarrow> (error + conversation list \<times> bool) \<times> world" where
  "GladlyClient_fetchConversations E startDate endDate page pageSize w =
     (let offset = (int page - 1) * int pageSize;
          w' = send w (GetConversations startDate endDate offset pageSize)
      in case conversationsEndpoint E startDate endDate offset pageSize of
           Response None \<Rightarrow> (Inr ([], False), w')
         | Response (Some conversations) \<Rightarrow>
             (Inr (conversations, length conversations \<ge> pageSize), w')
         | Failure _ _ m \<Rightarrow> (Inl (Error (''Failed to fetch conversations: '' @ m)), w'))"

definition GladlyClient_fetchConversationItems ::
  "env \<Rightarrow> string \<Rightarrow> world \<Rightarrow> (error + item list) \<times> world" where
  "GladlyClient_fetchConversationItems E conversationId w =
     (case itemsEndpoint E conversationId of
        Response d \<Rightarrow>
          (Inr (case d of None \<Rightarrow> [] | Some xs \<Rightarrow> xs), send w (GetItems conversationId))
      | Failure _ _ m \<Rightarrow>
          (Inl (Error (''Failed to fetch conversation items: '' @ m)),
           send w (GetItems conversationId)))"

text \<open>\<open>location.split('/').pop()\<close>.\<close>

definition lastSegment :: "string \<Rightarrow> string" where
  "lastSegment location = rev (takeWhile (\<lambda>c. c \<noteq> CHR ''/'') (rev location))"

text \<open>
  The client is created by \<open>axios.create\<close> with no \<open>maxRedirects\<close>, so in Node the
  HTTP client follows an answer with a status from 300 to 399 and a \<open>Location\<close> header
  by itself, up to 21 times for one call; one redirect more fails the call with an error
  that has no response. The location of a moved customer is the URL of the profile whose
  id is its last segment.
\<close>

definition maxRedirects :: nat where
  "maxRedirects = 21"

definition redirectTarget :: "'a httpResult \<Rightarrow> string option" where
  "redirectTarget answer =
     (case answer of
        Response d \<Rightarrow> None
      | Failure status location m \<Rightarrow>
          (case (status, location) of
             (Some code, Some l) \<Rightarrow> if 300 \<le> code \<and> code < 400 then Some l else None
           | _ \<Rightarrow> None))"

fun followRedirects ::
  "env \<Rightarrow> nat \<Rightarrow> string \<Rightarrow> world \<Rightarrow> customer option httpResult \<times> world" where
  "followRedirects E 0 customerId w =
     (case redirectTarget (customerEndpoint E customerId) of
        Some l \<Rightarrow>
          (Failure None None ''Maximum number of redirects exceeded'',
           send w (GetCustomer customerId))
      | None \<Rightarrow> (customerEndpoint E customerId, send w (GetCustomer customerId)))"
| "followRedirects E (Suc n) customerId w =
     (case redirectTarget (customerEndpoint E customerId) of
        Some l \<Rightarrow> followRedirects E n (lastSegment l) (send w (GetCustomer customerId))
      | None \<Rightarrow> (customerEndpoint E customerId, send w (GetCustomer customerId)))"

text \<open>\<open>this.client.get(`/api/v1/customer-profiles/${customerId}`)\<close>.\<close>

definition getCustomerProfile ::
  "env \<Rightarrow> string \<Rightarrow> world \<Rightarrow> customer option httpResult \<times> world" where
  "getCustomerProfile E customerId w = followRedirects E maxRedirects customerId w"

text \<open>
  \<open>fetchCustomer\<close> calls itself when the error it catches has the status 301, with no
  bound of its own on the calls, so it is defined as a function that may not return
  (\<open>None\<close>); lemma \<open>fetchCustomer_returns\<close> shows that it always does, since the
  HTTP client hands it no 301 that has a \<open>Location\<close> header. A 301 without that header
  throws a \<open>TypeError\<close> out of the \<open>catch\<close> block.
\<close>

partial_function (option) GladlyClient_fetchCustomer ::
  "env \<Rightarrow> string \<Rightarrow> world \<Rightarrow> ((error + customer option) \<times> world) option" where
  "GladlyClient_fetchCustomer E customerId w =
     (case getCustomerProfile E customerId w of
        (Response d, w') \<Rightarrow> Some (Inr d, w')
      | (Failure status location m, w') \<Rightarrow>
          if status = Some 301 then
            (case location of
               None \<Rightarrow> Some (Inl TypeError, w')
             | Some l \<Rightarrow> GladlyClient_fetchCustomer E (lastSegment l) w')
          else Some (Inl (Error (''Failed to fetch customer: '' @ m)), w'))"

section \<open>StateManager\<close>

text \<open>
  The state file holds one record or nothing usable (missing, unreadable, not JSON, no
  \<open>lastImportTime\<close>): \<open>getLastImportTime\<close> answers \<open>null\<close> in all those cases.
\<close>

definition StateManager_getLastImportTime :: "world \<Rightarrow> int option" where
  "StateManager_getLastImportTime w = map_option lastImportTime (stateFile w)"

definition StateManager_updateLastImportTime :: "env \<Rightarrow> int \<Rightarrow> world \<Rightarrow> bool \<times> world" where
  "StateManager_updateLastImportTime E timestamp w =
     (if stateFileWritable E then
        (True, w\<lparr> stateFile := Some \<lparr> lastImportTime = timestamp, updatedAt = clockWrite E \<rparr> \<rparr>)
      else (False, w))"

section \<open>GladlyImporter\<close>

record options =
  opt_isFullImport :: bool
  opt_startDate :: "int option"
  opt_endDate :: "int option"
  opt_limit :: "nat option"

record metrics =
  conversationsCount :: nat
  itemsCount :: nat
  customersCount :: nat
  errorsCount :: nat
  startTime :: int
  endTime :: "int option"

text \<open>\<open>config.batchSize || 100\<close>.\<close>

definition batchSize :: "env \<Rightarrow> nat" where
  "batchSize E = (case configBatchSize E of None \<Rightarrow> 100 | Some n \<Rightarrow> if n = 0 then 100 else n)"

definition validateConnections :: "env \<Rightarrow> world \<Rightarrow> (error + unit) \<times> world" where
  "validateConnections E w =
     (let w1 = send w GetOrganization
      in case organizationEndpoint E of
           Failure _ _ m \<Rightarrow>
             (Inl (Error (''Connection validation failed: ''
                     @ ''Failed to connect to Gladly API: '' @ m)), w1)
         | Response _ \<Rightarrow>
             (let w2 = send w1 GetStatus
              in case statusEndpoint E of
                   Failure _ _ m \<Rightarrow>
                     (Inl (Error (''Connection validation failed: ''
                             @ ''Failed to connect to Enterpret API: '' @ m)), w2)
                 | Response _ \<Rightarrow> (Inr (), w2)))"

text \<open>
  \<open>_determineStartDate\<close>. \<open>2010-01-01T00:00:00Z\<close> is 1262304000000 ms; the default,
  thirty calendar days before the clock's reading, is the runtime's computation
  (\<open>setDate\<close>).
\<close>

definition determineStartDate :: "env \<Rightarrow> bool \<Rightarrow> int option \<Rightarrow> world \<Rightarrow> int" where
  "determineStartDate E isFullImport userStartDate w =
     (case userStartDate of
        Some d \<Rightarrow> d
      | None \<Rightarrow>
          if isFullImport then 1262304000000
          else (case StateManager_getLastImportTime w of
                  Some t \<Rightarrow> t
                | None \<Rightarrow> clockDefaultStart E))"

text \<open>
  The \<open>while (hasMore)\<close> loop of \<open>_fetchConversations\<close>, entered with \<open>hasMore\<close> true.
  It runs as long as pages come back full, so it may not return.
\<close>

partial_function (option) fetchConversationsLoop ::
  "env \<Rightarrow> int \<Rightarrow> int \<Rightarrow> nat option \<Rightarrow> conversation list \<Rightarrow> nat \<Rightarrow> world
     \<Rightarrow> ((error + conversation list) \<times> world) option" where
  "fetchConversationsLoop E startDate endDate limit allConversations page w =
     (case GladlyClient_fetchConversations E startDate endDate page (batchSize E) w of
        (Inl e, w') \<Rightarrow> Some (Inl e, w')
      | (Inr (conversations, resultHasMore), w') \<Rightarrow>
          (let all' = allConversations @ conversations
           in case limit of
                None \<Rightarrow>
                  if resultHasMore
                  then fetchConversationsLoop E startDate endDate limit all' (page + 1) w'
                  else Some (Inr all', w')
              | Some n \<Rightarrow>
                  if n = 0 then
                    (if resultHasMore
                     then fetchConversationsLoop E startDate endDate limit all' (page + 1) w'
                     else Some (Inr all', w'))
                  else if length all' \<ge> n then Some (Inr (take n all'), w')
                  else if resultHasMore \<and> length all' < n
                    then fetchConversationsLoop E startDate endDate limit all' (page + 1) w'
                    else Some (Inr all', w')))"

definition Importer_fetchConversations ::
  "env \<Rightarrow> int \<Rightarrow> int \<Rightarrow> nat option \<Rightarrow> world \<Rightarrow> ((error + conversation list) \<times> world) option" where
  "Importer_fetchConversations E startDate endDate limit w =
     fetchConversationsLoop E startDate endDate limit [] 1 w"

definition Importer_fetchConversationItems :: "env \<Rightarrow> string \<Rightarrow> world \<Rightarrow> item list \<times> world" where
  "Importer_fetchConversationItems E conversationId w =
     (case GladlyClient_fetchConversationItems E conversationId w of
        (Inr items, w') \<Rightarrow> (items, w')
      | (Inl e, w') \<Rightarrow> ([], w'))"

definition Importer_fetchCustomer ::
  "env \<Rightarrow> string \<Rightarrow> world \<Rightarrow> (customer option \<times> world) option" where
  "Importer_fetchCustomer E customerId w =
     (case GladlyClient_fetchCustomer E customerId w of
        None \<Rightarrow> None
      | Some (Inr customer, w') \<Rightarrow> Some (customer, w')
      | Some (Inl e, w') \<Rightarrow> Some (None, w'))"

text \<open>The body of the loop over the conversations, with its \<open>try\<close> and \<open>catch\<close>.\<close>

definition processConversation ::
  "platform \<Rightarrow> env \<Rightarrow> conversation \<Rightarrow> metrics \<times> world \<Rightarrow> (metrics \<times> world) option" where
  "processConversation P E conversation s =
     (case s of (m, w) \<Rightarrow>
        (case Importer_fetchConversationItems E (render (conv_id conversation)) w of
           (items, w1) \<Rightarrow>
             (let m1 = m\<lparr> itemsCount := itemsCount m + length items \<rparr>
              in case Importer_fetchCustomer E (render (conv_customerId conversation)) w1 of
                   None \<Rightarrow> None
                 | Some (customer, w2) \<Rightarrow>
                     (let m2 = (if customer \<noteq> None
                                then m1\<lparr> customersCount := customersCount m1 + 1 \<rparr> else m1)
                      in case transformConversation P conversation (Some items) customer of
                           Inl e \<Rightarrow> Some (m2\<lparr> errorsCount := errorsCount m2 + 1 \<rparr>, w2)
                         | Inr transformedData \<Rightarrow>
                             (case EnterpretClient_importFeedback E transformedData w2 of
                                (Inl e, w3) \<Rightarrow>
                                  Some (m2\<lparr> errorsCount := errorsCount m2 + 1 \<rparr>, w3)
                              | (Inr _, w3) \<Rightarrow> Some (m2, w3))))))"

fun processConversations ::
  "platform \<Rightarrow> env \<Rightarrow> conversation list \<Rightarrow> metrics \<times> world \<Rightarrow> (metrics \<times> world) option" where
  "processConversations P E [] s = Some s"
| "processConversations P E (conversation # rest) s =
     (case processConversation P E conversation s of
        None \<Rightarrow> None
      | Some s' \<Rightarrow> processConversations P E rest s')"

text \<open>
  \<open>GladlyImporter.import\<close>: the result (the thrown error or the metrics) and the world
  after the run, or \<open>None\<close> when the run does not return.
\<close>

definition resolvedEndDate :: "env \<Rightarrow> options \<Rightarrow> int" where
  "resolvedEndDate E opts = (case opt_endDate opts of Some d \<Rightarrow> d | None \<Rightarrow> clockNow E)"

definition importRun ::
  "platform \<Rightarrow> env \<Rightarrow> options \<Rightarrow> world \<Rightarrow> ((error + metrics) \<times> world) option" where
  "importRun P E opts w =
     (let metrics0 = \<lparr> conversationsCount = 0, itemsCount = 0, customersCount = 0,
                       errorsCount = 0, startTime = clockStart E, endTime = None \<rparr>
      in case validateConnections E w of
           (Inl e, w1) \<Rightarrow> Some (Inl e, w1)
         | (Inr _, w1) \<Rightarrow>
             (let importStartDate =
                    determineStartDate E (opt_isFullImport opts) (opt_startDate opts) w1;
                  importEndDate = resolvedEndDate E opts
              in case Importer_fetchConversations E importStartDate importEndDate
                        (opt_limit opts) w1 of
                   None \<Rightarrow> None
                 | Some (Inl e, w2) \<Rightarrow> Some (Inl e, w2)
                 | Some (Inr conversations, w2) \<Rightarrow>
                     (case processConversations P E conversations
                             (metrics0\<lparr> conversationsCount := length conversations \<rparr>, w2) of
                        None \<Rightarrow> None
                      | Some (m, w3) \<Rightarrow>
                          if errorsCount m = 0 then
                            (case StateManager_updateLastImportTime E importEndDate w3 of
                               (ok, w4) \<Rightarrow> Some (Inr (m\<lparr> endTime := Some (clockEnd E) \<rparr>), w4))
                          else Some (Inr (m\<lparr> endTime := Some (clockEnd E) \<rparr>), w3))))"

section \<open>Notions used in the statements\<close>








text \<open>
  For the customer mapping: an entry has the value \<open>v\<close> when each form of it that is
  present (normalized, original) is \<open>v\<close> and at least one is present; the form of an
  entry that is preferred, the normalized one when it is there; and the first entry of
  a list that is flagged primary.
\<close>

definition hasValue :: "contactEntry \<Rightarrow> string \<Rightarrow> bool" where
  "hasValue e v =
     ((entry_normalized e = Some v \<or> entry_original e = Some v) \<and>
      (entry_normalized e = None \<or> entry_normalized e = Some v) \<and>
      (entry_original e = None \<or> entry_original e = Some v))"

definition preferredForm :: "contactEntry \<Rightarrow> string option" where
  "preferredForm e =
     (if truthy (entry_normalized e) then entry_normalized e else entry_original e)"

definition firstFlagged :: "contactEntry list \<Rightarrow> contactEntry \<Rightarrow> bool" where
  "firstFlagged es e =
     (\<exists>pre post. es = pre @ e # post \<and> entry_primary e \<and> (\<forall>x \<in> set pre. \<not> entry_primary x))"





definition chatLine :: "platform \<Rightarrow> item \<Rightarrow> itemContent \<Rightarrow> string" where
  "chatLine P item c =
     ''['' @ toISOString P (instantOf item) @ ''] ''
       @ (case item_initiator item of None \<Rightarrow> ''UNKNOWN'' | Some i \<Rightarrow> render (initiator_type i))
       @ '': '' @ orEmpty (content_content c)"

definition blockOf :: "platform \<Rightarrow> item \<Rightarrow> string option" where
  "blockOf P item = (case renderItem P item of Inl e \<Rightarrow> None | Inr b \<Rightarrow> b)"

text \<open>
  For the destination writer: what \<open>_validateFeedbackData\<close> asks of a record.
\<close>

definition validRecord :: "feedbackRecord \<Rightarrow> bool" where
  "validRecord d =
     (truthy (fb_id d) \<and> truthy (fb_source d) \<and> truthy (fb_timestamp d) \<and>
      (truthy (fb_content d) \<or> fb_metadata d \<noteq> None))"

text \<open>
  For the source reader. \<open>movedTo\<close>: the id that the answer of the server to a customer
  request points to, when the answer is a redirect. \<open>movedChain\<close>: each id of the list
  is moved to the next one. \<open>fetchOutcome\<close>: what \<open>fetchCustomer\<close> returns or throws
  on the answer to the request for an id that is not moved; \<open>absentOnError\<close>: what
  the importer makes of that. \<open>itemsUnavailable\<close>: the items request of a conversation
  fails, or its answer holds no array or an empty one.
\<close>

definition movedTo :: "env \<Rightarrow> string \<Rightarrow> string option" where
  "movedTo E customerId = map_option lastSegment (redirectTarget (customerEndpoint E customerId))"

fun movedChain :: "env \<Rightarrow> string list \<Rightarrow> bool" where
  "movedChain E (a # b # rest) = (movedTo E a = Some b \<and> movedChain E (b # rest))"
| "movedChain E ids = True"

definition clientOutcome :: "customer option httpResult \<Rightarrow> error + customer option" where
  "clientOutcome answer =
     (case answer of
        Response d \<Rightarrow> Inr d
      | Failure status location m \<Rightarrow>
          if status = Some 301 then Inl TypeError
          else Inl (Error (''Failed to fetch customer: '' @ m)))"

definition fetchOutcome :: "env \<Rightarrow> string \<Rightarrow> error + customer option" where
  "fetchOutcome E customerId = clientOutcome (customerEndpoint E customerId)"

definition absentOnError :: "error + customer option \<Rightarrow> customer option" where
  "absentOnError r = (case r of Inl e \<Rightarrow> None | Inr d \<Rightarrow> d)"

definition itemsUnavailable :: "env \<Rightarrow> string \<Rightarrow> bool" where
  "itemsUnavailable E conversationId =
     (case itemsEndpoint E conversationId of
        Response d \<Rightarrow> d = None \<or> d = Some []
      | Failure status location m \<Rightarrow> True)"

text \<open>For a finished run: its error count, and the \<open>lastImportTime\<close> stored after it.\<close>

definition runErrors :: "((error + metrics) \<times> world) option \<Rightarrow> nat option" where
  "runErrors run = (case run of Some (Inr m, w) \<Rightarrow> Some (errorsCount m) | _ \<Rightarrow> None)"

definition runLastImportTime :: "((error + metrics) \<times> world) option \<Rightarrow> int option" where
  "runLastImportTime run =
     (case run of Some (res, w) \<Rightarrow> StateManager_getLastImportTime w | None \<Rightarrow> None)"

text \<open>
  Concrete inputs. \<open>bareContent\<close> is a content with nothing but a type.
\<close>

definition bareContent :: "string \<Rightarrow> itemContent" where
  "bareContent t =
     \<lparr> content_type = Some t, content_content = None, content_subject = None,
       content_bodyPlain = None, content_body = None, content_completedAt = None,
       content_answeredAt = None, content_addedTopicIds = None,
       content_removedTopicIds = None, content_status = None, content_title = None \<rparr>"


definition examplePlatform :: platform where
  "examplePlatform =
     \<lparr> toISOString = (\<lambda>t. if t = 1 then ''T1'' else if t = 2 then ''T2'' else ''T''),
       secondsText = (\<lambda>ms. ''0''),
       toLowerCase = (\<lambda>s. s),
       unspecifiedOrder = (\<lambda>items. items) \<rparr>"

definition exampleCustomer :: customer where
  "exampleCustomer =
     \<lparr> customer_id = Some ''cust-1'', customer_name = Some ''Ada'',
       customer_emails =
         Some [\<lparr> entry_primary = False, entry_normalized = None,
                  entry_original = Some ''a@x.com'' \<rparr>,
               \<lparr> entry_primary = True, entry_normalized = None,
                  entry_original = Some ''b@x.com'' \<rparr>],
       customer_phones =
         Some [\<lparr> entry_primary = False, entry_normalized = Some ''+15550001'',
                  entry_original = Some ''555-0001'' \<rparr>,
               \<lparr> entry_primary = False, entry_normalized = None,
                  entry_original = Some ''555-0002'' \<rparr>],
       customer_externalCustomerId = None \<rparr>"


definition chatItem :: "dateValue \<Rightarrow> string \<Rightarrow> item" where
  "chatItem ts msg =
     \<lparr> item_timestamp = ts, item_initiator = Some \<lparr> initiator_type = Some ''CUSTOMER'' \<rparr>,
       item_content = Some ((bareContent ''CHAT_MESSAGE'') \<lparr> content_content := Some msg \<rparr>) \<rparr>"

definition exampleConversation :: conversation where
  "exampleConversation =
     \<lparr> conv_id = Some ''c1'', conv_createdAt = Some ''2024-05-01T10:00:00.000Z'',
       conv_status = Some ''OPEN'', conv_inboxId = Some ''inbox-1'', conv_agentId = None,
       conv_customerId = Some ''cust-1'', conv_topicIds = None,
       conv_customAttributes = None \<rparr>"

definition exampleEnv :: env where
  "exampleEnv =
     \<lparr> organizationEndpoint = Response (),
       statusEndpoint = Response (),
       conversationsEndpoint = (\<lambda>s e offset n. Response (Some [exampleConversation])),
       itemsEndpoint = (\<lambda>cid. Failure (Some 500) None ''Request failed with status code 500''),
       customerEndpoint =
         (\<lambda>cid. if cid = ''a'' then Failure (Some 301) (Some ''/api/v1/customer-profiles/b'') ''moved''
                else if cid = ''b'' then Failure (Some 301) (Some ''/api/v1/customer-profiles/c'') ''moved''
                else if cid = ''c'' then Response (Some exampleCustomer)
                else if cid = ''old'' then
                  Failure (Some 301) (Some ''/api/v1/customer-profiles/missing'') ''moved''
                else if cid = ''x'' then
                  Failure (Some 301) (Some ''/api/v1/customer-profiles/y'') ''moved''
                else if cid = ''y'' then
                  Failure (Some 301) (Some ''/api/v1/customer-profiles/x'') ''moved''
                else Failure (Some 404) None ''Request failed with status code 404''),
       feedbackEndpoint = (\<lambda>d. Response ''ok''),
       batchEndpoint = (\<lambda>ds. Response ''ok''),
       stateFileWritable = True,
       configBatchSize = None,
       clockStart = 9000, clockDefaultStart = 1000, clockNow = 9001, clockWrite = 9002,
       clockEnd = 9003 \<rparr>"

definition exampleWorld :: world where
  "exampleWorld = \<lparr> requests = [], stateFile = Some \<lparr> lastImportTime = 2000, updatedAt = 2001 \<rparr> \<rparr>"

definition exampleOptions :: "int option \<Rightarrow> options" where
  "exampleOptions endDate =
     \<lparr> opt_isFullImport = False, opt_startDate = None, opt_endDate = endDate, opt_limit = None \<rparr>"

definition exampleMetrics :: metrics where
  "exampleMetrics =
     \<lparr> conversationsCount = 1, itemsCount = 0, customersCount = 0, errorsCount = 0,
       startTime = 9000, endTime = None \<rparr>"

definition exampleFeedback :: feedbackRecord where
  "exampleFeedback =
     \<lparr> fb_id = Some ''gladly_c9'', fb_source = Some ''Gladly'', fb_channel = Some ''chat'',
       fb_timestamp = Some ''2024-05-01T10:00:00.000Z'', fb_status = Some ''open'',
       fb_metadata = None, fb_agent = None, fb_customer = None, fb_tags = None,
       fb_content = Some ''hello'', fb_customAttributes = None \<rparr>"

section \<open>Channel inference: the highest count wins, ties go to the channel seen first\<close>
















lemma channelFor_plain:
  "arrayIndex (channelFor t) = None \<and> channelFor t \<noteq> ''__proto__'' \<and>
   objectPrototypeText (channelFor t) = None"
  by (simp add: channelFor_def channelMap_def objectPrototypeText_def arrayIndex_def isDigit_def
        split: option.splits)








section \<open>Customer mapping: the primary entry, else the first\<close>

lemma find_first_flagged:
  "find entry_primary es = Some e \<Longrightarrow> firstFlagged es e"
  unfolding firstFlagged_def
proof (induction es)
  case Nil
  then show ?case by simp
next
  case (Cons x es)
  show ?case
  proof (cases "entry_primary x")
    case True
    with Cons.prems have "x = e" by simp
    with True have "x # es = [] @ e # es \<and> entry_primary e \<and> (\<forall>y \<in> set []. \<not> entry_primary y)"
      by simp
    then show ?thesis by blast
  next
    case False
    with Cons obtain pre post where
      "es = pre @ e # post" "entry_primary e" "\<forall>y \<in> set pre. \<not> entry_primary y"
      by auto
    with False have "x # es = (x # pre) @ e # post \<and> entry_primary e
        \<and> (\<forall>y \<in> set (x # pre). \<not> entry_primary y)"
      by simp
    then show ?thesis by blast
  qed
qed

lemma find_none_flagged:
  "find entry_primary es = None \<Longrightarrow> \<forall>x \<in> set es. \<not> entry_primary x"
  by (simp add: find_None_iff)

lemma primaryValue_choice:
  assumes "es \<noteq> []"
  shows "\<exists>e \<in> set es.
           primaryValue (Some es) = preferredForm e \<and>
           (firstFlagged es e \<or> ((\<forall>x \<in> set es. \<not> entry_primary x) \<and> e = hd es))"
proof (cases "find entry_primary es")
  case None
  from assms obtain e rest where es: "es = e # rest" by (cases es) auto
  have "primaryValue (Some es) = preferredForm e"
    using None es by (simp add: primaryValue_def preferredForm_def orElse_def)
  moreover have "\<forall>x \<in> set es. \<not> entry_primary x" using None by (rule find_none_flagged)
  ultimately show ?thesis using es by auto
next
  case (Some p)
  from assms obtain e rest where es: "es = e # rest" by (cases es) auto
  have "primaryValue (Some es) = preferredForm p"
    using Some es by (simp add: primaryValue_def preferredForm_def orElse_def)
  moreover have ff: "firstFlagged es p" using Some by (rule find_first_flagged)
  moreover have "p \<in> set es" using ff by (auto simp: firstFlagged_def)
  ultimately show ?thesis by blast
qed

lemma primaryValue_scenario:
  assumes "\<not> entry_primary e1" "entry_primary e2" "hasValue e2 v" "v \<noteq> []"
  shows "primaryValue (Some [e1, e2]) = Some v"
  using assms by (auto simp: primaryValue_def hasValue_def orElse_def truthy_def)

text \<open>
  Claim C3. For a customer profile with a non-empty list of emails, the email of the
  transformed customer is the preferred form (the normalized one when it is there, else
  the original) of the first entry flagged primary, or of the first entry of the list
  when no entry is flagged. The same holds for the phones. For the two emails
  \<open>a@x.com\<close> (not primary) and \<open>b@x.com\<close> (primary), in whichever of the two forms
  these values come, the transformed email is \<open>b@x.com\<close>.
\<close>

theorem transformCustomer_primary_contact:
  "(\<forall>es. customer_emails c = Some es \<and> es \<noteq> [] \<longrightarrow>
      (\<exists>e \<in> set es.
         tc_email (transformCustomer c) = preferredForm e \<and>
         (firstFlagged es e \<or> ((\<forall>x \<in> set es. \<not> entry_primary x) \<and> e = hd es)))) \<and>
   (\<forall>es. customer_phones c = Some es \<and> es \<noteq> [] \<longrightarrow>
      (\<exists>e \<in> set es.
         tc_phone (transformCustomer c) = preferredForm e \<and>
         (firstFlagged es e \<or> ((\<forall>x \<in> set es. \<not> entry_primary x) \<and> e = hd es)))) \<and>
   (\<forall>e1 e2. customer_emails c = Some [e1, e2] \<and> \<not> entry_primary e1 \<and> entry_primary e2 \<and>
        hasValue e1 ''a@x.com'' \<and> hasValue e2 ''b@x.com''
        \<longrightarrow> tc_email (transformCustomer c) = Some ''b@x.com'')"
proof -
  have 1: "\<forall>es. customer_emails c = Some es \<and> es \<noteq> [] \<longrightarrow>
      (\<exists>e \<in> set es.
         tc_email (transformCustomer c) = preferredForm e \<and>
         (firstFlagged es e \<or> ((\<forall>x \<in> set es. \<not> entry_primary x) \<and> e = hd es)))"
    using primaryValue_choice by (simp add: transformCustomer_def)
  have 2: "\<forall>es. customer_phones c = Some es \<and> es \<noteq> [] \<longrightarrow>
      (\<exists>e \<in> set es.
         tc_phone (transformCustomer c) = preferredForm e \<and>
         (firstFlagged es e \<or> ((\<forall>x \<in> set es. \<not> entry_primary x) \<and> e = hd es)))"
    using primaryValue_choice by (simp add: transformCustomer_def)
  have 3: "\<forall>e1 e2. customer_emails c = Some [e1, e2] \<and> \<not> entry_primary e1 \<and> entry_primary e2 \<and>
        hasValue e1 ''a@x.com'' \<and> hasValue e2 ''b@x.com''
        \<longrightarrow> tc_email (transformCustomer c) = Some ''b@x.com''"
    using primaryValue_scenario [where v = "''b@x.com''"] by (simp add: transformCustomer_def)
  from 1 2 3 show ?thesis by blast
qed


theorem transformCustomer_primary_contact_witness:
  "tc_email (transformCustomer exampleCustomer) = Some ''b@x.com'' \<and>
   (\<exists>e. tc_phone (transformCustomer exampleCustomer) = preferredForm e \<and>
        entry_normalized e = Some ''+15550001'')"
proof -
  note T = transformCustomer_primary_contact [of exampleCustomer]
  have 1: "tc_email (transformCustomer exampleCustomer) = Some ''b@x.com''"
    using T by (simp add: exampleCustomer_def hasValue_def)
  from T have "\<exists>e \<in> set (the (customer_phones exampleCustomer)).
         tc_phone (transformCustomer exampleCustomer) = preferredForm e \<and>
         (firstFlagged (the (customer_phones exampleCustomer)) e \<or>
          ((\<forall>x \<in> set (the (customer_phones exampleCustomer)). \<not> entry_primary x) \<and>
           e = hd (the (customer_phones exampleCustomer))))"
    by (simp add: exampleCustomer_def)
  then have 2: "\<exists>e. tc_phone (transformCustomer exampleCustomer) = preferredForm e \<and>
        entry_normalized e = Some ''+15550001''"
    by (auto simp: exampleCustomer_def firstFlagged_def)
  from 1 2 show ?thesis by blast
qed

section \<open>Content assembly\<close>







lemma filter_key_distinct:
  "distinct (map f l) \<Longrightarrow> k \<in> set l \<Longrightarrow> filter (\<lambda>x. f k = f x) l = [k]"
proof (induction l)
  case Nil
  then show ?case by simp
next
  case (Cons a l)
  show ?case
  proof (cases "k = a")
    case True
    have "filter (\<lambda>x. f a = f x) l = []"
      using Cons.prems(1) by (auto simp: filter_empty_conv)
    with True show ?thesis by simp
  next
    case False
    with Cons.prems have kl: "k \<in> set l" and "f a \<noteq> f k" by auto
    with Cons show ?thesis by auto
  qed
qed

lemma sort_key_permutation:
  assumes "mset xs = mset ys" and "distinct (map f xs)"
  shows "sort_key f xs = sort_key f ys"
proof (rule properties_for_sort_key)
  show "mset (sort_key f ys) = mset xs" using assms(1) by simp
  show "sorted (map f (sort_key f ys))" by simp
  fix k assume k: "k \<in> set (sort_key f ys)"
  have "mset (map f xs) = mset (map f ys)" using assms(1) by (metis mset_map)
  then have dy: "distinct (map f ys)" using assms(2) mset_eq_imp_distinct_iff by blast
  have "filter (\<lambda>x. f k = f x) (sort_key f ys) = [k]"
    using dy k by (intro filter_key_distinct) (simp_all add: distinct_map)
  moreover have "k \<in> set xs" using k assms(1) by (metis mset_eq_setD set_sort)
  then have "filter (\<lambda>x. f k = f x) xs = [k]"
    using assms(2) by (intro filter_key_distinct)
  ultimately show "filter (\<lambda>x. f k = f x) (sort_key f ys) = filter (\<lambda>x. f k = f x) xs" by simp
qed


lemma renderItem_valid:
  "validTimestamp item \<Longrightarrow> renderItem P item = Inr (blockOf P item)"
  by (cases "item_timestamp item")
     (auto simp: renderItem_def blockOf_def validTimestamp_def split: option.splits)

lemma renderItems_valid:
  "list_all validTimestamp ys \<Longrightarrow>
     renderItems P ys parts = Inr (parts @ List.map_filter (blockOf P) ys)"
proof (induction ys arbitrary: parts)
  case Nil
  show ?case by (simp add: List.map_filter_simps)
next
  case (Cons y ys)
  then have y: "renderItem P y = Inr (blockOf P y)" and ys: "list_all validTimestamp ys"
    by (simp_all add: renderItem_valid)
  show ?case
    using y Cons.IH [OF ys] by (cases "blockOf P y") (simp_all add: List.map_filter_simps)
qed

lemma sort_key_valid: "list_all validTimestamp items \<Longrightarrow> list_all validTimestamp (sort_key f items)"
  by (simp add: list_all_iff)

lemma processConversationItems_valid:
  assumes "list_all validTimestamp items"
  shows "processConversationItems P (Some items) =
     Inr (joinWith (newline @ newline)
            (List.map_filter (blockOf P) (sort_key instantOf items)))"
proof (cases items)
  case Nil
  then show ?thesis by (simp add: processConversationItems_def List.map_filter_simps)
next
  case (Cons x xs)
  have "renderItems P (sort_key instantOf items) [] =
          Inr ([] @ List.map_filter (blockOf P) (sort_key instantOf items))"
    using assms by (intro renderItems_valid sort_key_valid)
  with assms Cons show ?thesis
    by (simp add: processConversationItems_def sortedItems_def del: sort_key_simps)
qed

lemma transformConversation_content:
  "transformConversation P conv items cust = Inr r \<Longrightarrow>
     \<exists>content. processConversationItems P items = Inr content \<and> fb_content r = Some content"
  by (auto simp: transformConversation_def Let_def split: option.splits sum.splits)

lemma transformConversation_returns:
  "(\<exists>r. transformConversation P conv items cust = Inr r) =
     (conv_status conv \<noteq> None \<and> (\<exists>content. processConversationItems P items = Inr content))"
  by (auto simp: transformConversation_def Let_def split: option.splits sum.splits)

lemma sort_key_spec:
  "mset (sort_key instantOf items) = mset items \<and>
   sorted (map instantOf (sort_key instantOf items)) \<and>
   (\<forall>t. filter (\<lambda>x. instantOf x = t) (sort_key instantOf items)
          = filter (\<lambda>x. instantOf x = t) items)"
  by (simp add: sort_key_stable)

lemma blockOf_chat:
  assumes "item_content item = Some c" "content_type c = Some ''CHAT_MESSAGE''"
    and "validTimestamp item"
  shows "blockOf P item = Some (chatLine P item c)"
proof -
  from assms(3) obtain t where t: "item_timestamp item = Instant t"
    by (cases "item_timestamp item") (simp_all add: validTimestamp_def)
  then show ?thesis
    using assms(1,2)
    by (simp add: blockOf_def renderItem_def formatContent_def chatLine_def instantOf_def)
qed

lemma content_pair:
  assumes "list_all validTimestamp [a, b]" "blockOf P a = Some la" "blockOf P b = Some lb"
    and "instantOf b < instantOf a"
  shows "processConversationItems P (Some [a, b]) = Inr (lb @ newline @ newline @ la)"
  using assms by (simp add: processConversationItems_valid [OF assms(1)])

text \<open>
  Claim C7, as amended. For an item list whose timestamps are all valid dates, and a
  conversation that has a status, the content of the transformed record is the blocks of
  the items, joined with a blank line, taken in the order of a list that holds the same
  items sorted by ascending timestamp, items of equal timestamp staying in the order of
  the input (the sort is stable). So the content does not depend on the order of the
  input when the timestamps differ from each other; and for two chat items given as
  \<open>T2\<close> then \<open>T1\<close>, the line of \<open>T1\<close> comes first.
\<close>

theorem processConversationItems_chronological:
  assumes "list_all validTimestamp items"
  shows "(\<exists>ys. mset ys = mset items \<and>
            sorted (map instantOf ys) \<and>
            (\<forall>t. filter (\<lambda>x. instantOf x = t) ys = filter (\<lambda>x. instantOf x = t) items) \<and>
            processConversationItems P (Some items)
              = Inr (joinWith (newline @ newline) (List.map_filter (blockOf P) ys)) \<and>
            (\<forall>conv cust. conv_status conv \<noteq> None \<longrightarrow>
               (\<exists>r. transformConversation P conv (Some items) cust = Inr r \<and>
                    fb_content r
                      = Some (joinWith (newline @ newline) (List.map_filter (blockOf P) ys))))) \<and>
         (\<forall>items' conv cust r r'.
            mset items' = mset items \<and> distinct (map instantOf items) \<and>
            transformConversation P conv (Some items) cust = Inr r \<and>
            transformConversation P conv (Some items') cust = Inr r' \<longrightarrow>
            fb_content r' = fb_content r) \<and>
         (\<forall>a b ca cb conv cust r.
            items = [a, b] \<and> instantOf b < instantOf a \<and>
            item_content a = Some ca \<and> content_type ca = Some ''CHAT_MESSAGE'' \<and>
            item_content b = Some cb \<and> content_type cb = Some ''CHAT_MESSAGE'' \<and>
            transformConversation P conv (Some items) cust = Inr r \<longrightarrow>
            fb_content r = Some (chatLine P b cb @ newline @ newline @ chatLine P a ca))"
proof -
  let ?ys = "sort_key instantOf items"
  let ?text = "joinWith (newline @ newline) (List.map_filter (blockOf P) ?ys)"
  note p = processConversationItems_valid [OF assms, of P]
  have rec: "\<forall>conv cust. conv_status conv \<noteq> None \<longrightarrow>
               (\<exists>r. transformConversation P conv (Some items) cust = Inr r \<and>
                    fb_content r = Some ?text)"
  proof (intro allI impI)
    fix conv :: conversation and cust
    assume "conv_status conv \<noteq> None"
    then obtain r where r: "transformConversation P conv (Some items) cust = Inr r"
      using transformConversation_returns [of P conv "Some items" cust] p by auto
    from transformConversation_content [OF r] p have "fb_content r = Some ?text" by auto
    with r show "\<exists>r. transformConversation P conv (Some items) cust = Inr r \<and>
                    fb_content r = Some ?text"
      by blast
  qed
  have 1: "\<exists>ys. mset ys = mset items \<and>
            sorted (map instantOf ys) \<and>
            (\<forall>t. filter (\<lambda>x. instantOf x = t) ys = filter (\<lambda>x. instantOf x = t) items) \<and>
            processConversationItems P (Some items)
              = Inr (joinWith (newline @ newline) (List.map_filter (blockOf P) ys)) \<and>
            (\<forall>conv cust. conv_status conv \<noteq> None \<longrightarrow>
               (\<exists>r. transformConversation P conv (Some items) cust = Inr r \<and>
                    fb_content r
                      = Some (joinWith (newline @ newline) (List.map_filter (blockOf P) ys))))"
    using sort_key_spec [of items] p rec by blast
  have 2: "\<forall>items' conv cust r r'.
            mset items' = mset items \<and> distinct (map instantOf items) \<and>
            transformConversation P conv (Some items) cust = Inr r \<and>
            transformConversation P conv (Some items') cust = Inr r' \<longrightarrow>
            fb_content r' = fb_content r"
  proof (intro allI impI)
    fix items' and conv :: conversation and cust r r'
    assume h: "mset items' = mset items \<and> distinct (map instantOf items) \<and>
            transformConversation P conv (Some items) cust = Inr r \<and>
            transformConversation P conv (Some items') cust = Inr r'"
    then have v': "list_all validTimestamp items'"
      using assms by (metis list_all_iff mset_eq_setD)
    from h have "sort_key instantOf items = sort_key instantOf items'"
      by (intro sort_key_permutation) simp_all
    then have "processConversationItems P (Some items') = processConversationItems P (Some items)"
      using p processConversationItems_valid [OF v', of P] by simp
    moreover from h obtain c c' where
      "processConversationItems P (Some items) = Inr c" "fb_content r = Some c"
      "processConversationItems P (Some items') = Inr c'" "fb_content r' = Some c'"
      using transformConversation_content by blast
    ultimately show "fb_content r' = fb_content r" by simp
  qed
  have 3: "\<forall>a b ca cb conv cust r.
            items = [a, b] \<and> instantOf b < instantOf a \<and>
            item_content a = Some ca \<and> content_type ca = Some ''CHAT_MESSAGE'' \<and>
            item_content b = Some cb \<and> content_type cb = Some ''CHAT_MESSAGE'' \<and>
            transformConversation P conv (Some items) cust = Inr r \<longrightarrow>
            fb_content r = Some (chatLine P b cb @ newline @ newline @ chatLine P a ca)"
  proof (intro allI impI)
    fix a b ca cb and conv :: conversation and cust r
    assume h: "items = [a, b] \<and> instantOf b < instantOf a \<and>
            item_content a = Some ca \<and> content_type ca = Some ''CHAT_MESSAGE'' \<and>
            item_content b = Some cb \<and> content_type cb = Some ''CHAT_MESSAGE'' \<and>
            transformConversation P conv (Some items) cust = Inr r"
    with assms have v: "list_all validTimestamp [a, b]" by simp
    then have "blockOf P a = Some (chatLine P a ca)" "blockOf P b = Some (chatLine P b cb)"
      using h by (simp_all add: blockOf_chat)
    from content_pair [OF v this] h
    have "processConversationItems P (Some items)
            = Inr (chatLine P b cb @ newline @ newline @ chatLine P a ca)"
      by simp
    moreover from h obtain c where
      "processConversationItems P (Some items) = Inr c" "fb_content r = Some c"
      using transformConversation_content by blast
    ultimately show "fb_content r = Some (chatLine P b cb @ newline @ newline @ chatLine P a ca)"
      by simp
  qed
  from 1 2 3 show ?thesis by blast
qed

theorem processConversationItems_chronological_witness:
  "(\<exists>r. transformConversation examplePlatform exampleConversation
           (Some [chatItem (Instant 2) ''second'', chatItem (Instant 1) ''first'']) None = Inr r \<and>
        fb_content r
          = Some (''[T1] CUSTOMER: first'' @ newline @ newline @ ''[T2] CUSTOMER: second'')) \<and>
   processConversationItems examplePlatform
       (Some [chatItem (Instant 1) ''first'', chatItem (Instant 2) ''second''])
     = processConversationItems examplePlatform
       (Some [chatItem (Instant 2) ''second'', chatItem (Instant 1) ''first''])"
proof -
  let ?items = "[chatItem (Instant 2) ''second'', chatItem (Instant 1) ''first'']"
  have v: "list_all validTimestamp ?items" by (simp add: validTimestamp_def chatItem_def)
  note T = processConversationItems_chronological [OF v, of examplePlatform]
  have st: "conv_status exampleConversation \<noteq> None" by (simp add: exampleConversation_def)
  from T st obtain r where
    r: "transformConversation examplePlatform exampleConversation (Some ?items) None = Inr r"
    by blast
  have "fb_content r = Some (chatLine examplePlatform (chatItem (Instant 1) ''first'')
            ((bareContent ''CHAT_MESSAGE'') \<lparr> content_content := Some ''first'' \<rparr>)
          @ newline @ newline
          @ chatLine examplePlatform (chatItem (Instant 2) ''second'')
            ((bareContent ''CHAT_MESSAGE'') \<lparr> content_content := Some ''second'' \<rparr>))"
    using T r by (simp add: chatItem_def bareContent_def instantOf_def)
  then have 1: "fb_content r
          = Some (''[T1] CUSTOMER: first'' @ newline @ newline @ ''[T2] CUSTOMER: second'')"
    by (simp add: chatLine_def chatItem_def bareContent_def instantOf_def examplePlatform_def
          render_def orEmpty_def)
  have v': "list_all validTimestamp [chatItem (Instant 1) ''first'', chatItem (Instant 2) ''second'']"
    by (simp add: validTimestamp_def chatItem_def)
  have 2: "processConversationItems examplePlatform
       (Some [chatItem (Instant 1) ''first'', chatItem (Instant 2) ''second''])
     = processConversationItems examplePlatform (Some ?items)"
    unfolding processConversationItems_valid [OF v] processConversationItems_valid [OF v']
    by (simp add: chatItem_def instantOf_def)
  from r 1 2 show ?thesis by blast
qed

text \<open>
  The claim as it stands, for every item list, fails on a list that holds an item with a
  content and no valid timestamp: \<open>toISOString\<close> throws, \<open>transformConversation\<close>
  rethrows, and there is no record and no content.
\<close>

theorem invalid_timestamp_counterexample:
  "conv_status exampleConversation = Some ''OPEN'' \<and>
   item_timestamp (chatItem InvalidDate ''hello'') = InvalidDate \<and>
   processConversationItems examplePlatform (Some [chatItem InvalidDate ''hello''])
     = Inl RangeError \<and>
   transformConversation examplePlatform exampleConversation
       (Some [chatItem InvalidDate ''hello'']) None = Inl RangeError"
  by (simp add: exampleConversation_def chatItem_def transformConversation_def
        processConversationItems_def sortedItems_def validTimestamp_def renderItem_def Let_def)

section \<open>The transformed record\<close>

text \<open>
  Claim C8. For a conversation whose item list is empty or absent, the record that
  \<open>transformConversation\<close> returns has the channel \<open>other\<close> and the empty string as its
  content; and it does return a record whenever the conversation has a status.
\<close>

theorem transformConversation_no_items:
  assumes "items = None \<or> items = Some []"
  shows "(\<forall>r. transformConversation P conv items cust = Inr r \<longrightarrow>
            fb_channel r = Some ''other'' \<and> fb_content r = Some []) \<and>
         (conv_status conv \<noteq> None \<longrightarrow> (\<exists>r. transformConversation P conv items cust = Inr r))"
  using assms
  by (auto simp: transformConversation_def Let_def determinePrimaryChannel_def
        processConversationItems_def split: option.splits)

theorem transformConversation_no_items_witness:
  "\<exists>r. transformConversation examplePlatform exampleConversation (Some []) None = Inr r \<and>
       fb_channel r = Some ''other'' \<and> fb_content r = Some []"
proof -
  have "conv_status exampleConversation \<noteq> None" by (simp add: exampleConversation_def)
  with transformConversation_no_items
         [of "Some []" examplePlatform exampleConversation None]
  show ?thesis by auto
qed

text \<open>
  Claim C10. A record returned by \<open>transformConversation\<close> for a conversation that has a
  \<open>createdAt\<close> has an id, the source \<open>Gladly\<close>, a timestamp and a metadata object;
  \<open>_validateFeedbackData\<close> accepts it, whatever its content is, and \<open>importFeedback\<close>
  sends it. (A record is returned exactly when the conversation has a status; the id is
  there even for a conversation without one.)
\<close>

theorem transformConversation_passes_validation:
  assumes "transformConversation P conv items cust = Inr r" and "truthy (conv_createdAt conv)"
  shows "truthy (fb_id r) \<and> fb_source r = Some ''Gladly'' \<and> truthy (fb_timestamp r) \<and>
         fb_metadata r = Some \<lparr> gladly_conversation_id = conv_id conv, inboxId = conv_inboxId conv \<rparr> \<and>
         validateFeedbackData r = Inr () \<and>
         snd (EnterpretClient_importFeedback E r w) = send w (PostFeedback r)"
proof -
  from assms(1) obtain st content where st: "conv_status conv = Some st"
    and co: "processConversationItems P items = Inr content"
    by (auto simp: transformConversation_def Let_def split: option.splits sum.splits)
  have 1: "truthy (fb_id r)" using assms(1) st co
    by (auto simp: transformConversation_def Let_def truthy_def)
  have 2: "fb_source r = Some ''Gladly''" using assms(1) st co
    by (auto simp: transformConversation_def Let_def)
  have 3: "truthy (fb_timestamp r)" using assms st co
    by (auto simp: transformConversation_def Let_def)
  have 4: "fb_metadata r = Some \<lparr> gladly_conversation_id = conv_id conv, inboxId = conv_inboxId conv \<rparr>"
    using assms(1) st co by (auto simp: transformConversation_def Let_def)
  have 5: "validateFeedbackData r = Inr ()"
    using 1 2 3 4 by (simp add: validateFeedbackData_def truthy_def)
  have 6: "snd (EnterpretClient_importFeedback E r w) = send w (PostFeedback r)"
    using 5 by (simp add: EnterpretClient_importFeedback_def split: httpResult.splits)
  from 1 2 3 4 5 6 show ?thesis by blast
qed

theorem transformConversation_passes_validation_witness:
  "\<exists>r. transformConversation examplePlatform exampleConversation None None = Inr r \<and>
       fb_content r = Some [] \<and> validateFeedbackData r = Inr ()"
proof -
  obtain r where r: "transformConversation examplePlatform exampleConversation None None = Inr r"
    using transformConversation_returns [of examplePlatform exampleConversation None None]
    by (auto simp: exampleConversation_def processConversationItems_def)
  have t: "truthy (conv_createdAt exampleConversation)"
    by (simp add: exampleConversation_def truthy_def)
  have "fb_content r = Some []"
    using r by (auto simp: transformConversation_def Let_def processConversationItems_def
                  exampleConversation_def)
  with transformConversation_passes_validation [OF r t] r show ?thesis by blast
qed

section \<open>Destination writer: validation comes before the request\<close>

lemma validateFeedbackData_iff: "(validateFeedbackData d = Inr ()) = validRecord d"
  by (simp add: validateFeedbackData_def validRecord_def)

lemma validateAll_iff: "(validateAll ds = Inr ()) = (\<forall>d \<in> set ds. validRecord d)"
proof (induction ds)
  case Nil
  show ?case by simp
next
  case (Cons d ds)
  show ?case
  proof (cases "validateFeedbackData d")
    case (Inl e)
    then have "\<not> validRecord d" using validateFeedbackData_iff [of d] by simp
    with Inl show ?thesis by simp
  next
    case (Inr u)
    then have "validRecord d" using validateFeedbackData_iff [of d] by simp
    with Inr Cons show ?thesis by simp
  qed
qed

lemma importFeedback_invalid:
  "\<not> validRecord d \<Longrightarrow> \<exists>e. EnterpretClient_importFeedback E d w = (Inl e, w)"
  using validateFeedbackData_iff [of d]
  by (cases "validateFeedbackData d") (auto simp: EnterpretClient_importFeedback_def)

lemma importFeedback_valid:
  "validRecord d \<Longrightarrow>
     snd (EnterpretClient_importFeedback E d w) = send w (PostFeedback d)"
  using validateFeedbackData_iff [of d]
  by (auto simp: EnterpretClient_importFeedback_def split: httpResult.splits)

lemma importFeedbackBatch_nothing:
  "ds = None \<or> ds = Some [] \<Longrightarrow> \<exists>e. EnterpretClient_importFeedbackBatch E ds w = (Inl e, w)"
  by (auto simp: EnterpretClient_importFeedbackBatch_def)

lemma importFeedbackBatch_invalid:
  assumes "\<exists>d \<in> set ds. \<not> validRecord d"
  shows "\<exists>e. EnterpretClient_importFeedbackBatch E (Some ds) w = (Inl e, w)"
proof -
  from assms have "validateAll ds \<noteq> Inr ()" using validateAll_iff [of ds] by blast
  then obtain e where "validateAll ds = Inl e" by (cases "validateAll ds") auto
  then show ?thesis by (simp add: EnterpretClient_importFeedbackBatch_def)
qed

lemma importFeedbackBatch_valid:
  assumes "ds \<noteq> []" "\<forall>d \<in> set ds. validRecord d"
  shows "snd (EnterpretClient_importFeedbackBatch E (Some ds) w) = send w (PostFeedbackBatch ds)"
proof -
  from assms(2) have "validateAll ds = Inr ()" using validateAll_iff [of ds] by blast
  with assms(1) show ?thesis
    by (simp add: EnterpretClient_importFeedbackBatch_def split: httpResult.splits)
qed

text \<open>
  Claim C9. \<open>_validateFeedbackData\<close> accepts a record exactly when it has an id, a
  source, a timestamp and a content or a metadata. \<open>importFeedback\<close> on a record that
  fails this check throws without any request being issued, and on a record that passes
  it issues the one request that posts the record. \<open>importFeedbackBatch\<close> throws without
  any request on a missing or empty list, and on a list with an element that fails the
  check; on a non-empty list whose elements all pass it issues the one request that
  posts the batch.
\<close>

theorem importFeedback_validates_before_sending:
  "(validateFeedbackData d = Inr ()) = validRecord d \<and>
   (\<not> validRecord d \<longrightarrow> (\<exists>e. EnterpretClient_importFeedback E d w = (Inl e, w))) \<and>
   (validRecord d \<longrightarrow> snd (EnterpretClient_importFeedback E d w) = send w (PostFeedback d)) \<and>
   (batch = None \<or> batch = Some [] \<longrightarrow>
      (\<exists>e. EnterpretClient_importFeedbackBatch E batch w = (Inl e, w))) \<and>
   (\<forall>ds. batch = Some ds \<and> (\<exists>x \<in> set ds. \<not> validRecord x) \<longrightarrow>
      (\<exists>e. EnterpretClient_importFeedbackBatch E batch w = (Inl e, w))) \<and>
   (\<forall>ds. batch = Some ds \<and> ds \<noteq> [] \<and> (\<forall>x \<in> set ds. validRecord x) \<longrightarrow>
      snd (EnterpretClient_importFeedbackBatch E batch w) = send w (PostFeedbackBatch ds))"
  using validateFeedbackData_iff [of d] importFeedback_invalid [of d E w]
    importFeedback_valid [of d E w] importFeedbackBatch_nothing [of batch E w]
    importFeedbackBatch_invalid [of _ E w] importFeedbackBatch_valid [of _ E w]
  by blast

theorem importFeedback_validates_before_sending_witness:
  "(\<exists>e. EnterpretClient_importFeedback exampleEnv (exampleFeedback\<lparr> fb_id := None \<rparr>) exampleWorld
         = (Inl e, exampleWorld)) \<and>
   snd (EnterpretClient_importFeedback exampleEnv exampleFeedback exampleWorld)
     = send exampleWorld (PostFeedback exampleFeedback) \<and>
   (\<exists>e. EnterpretClient_importFeedbackBatch exampleEnv (Some []) exampleWorld
         = (Inl e, exampleWorld)) \<and>
   (\<exists>e. EnterpretClient_importFeedbackBatch exampleEnv
           (Some [exampleFeedback, exampleFeedback\<lparr> fb_timestamp := Some [] \<rparr>]) exampleWorld
         = (Inl e, exampleWorld)) \<and>
   snd (EnterpretClient_importFeedbackBatch exampleEnv (Some [exampleFeedback, exampleFeedback])
          exampleWorld)
     = send exampleWorld (PostFeedbackBatch [exampleFeedback, exampleFeedback])"
proof -
  have v: "validRecord exampleFeedback"
    by (simp add: validRecord_def exampleFeedback_def truthy_def)
  have n1: "\<not> validRecord (exampleFeedback\<lparr> fb_id := None \<rparr>)"
    by (simp add: validRecord_def truthy_def)
  have n2: "\<not> validRecord (exampleFeedback\<lparr> fb_timestamp := Some [] \<rparr>)"
    by (simp add: validRecord_def truthy_def)
  have 1: "\<exists>e. EnterpretClient_importFeedback exampleEnv (exampleFeedback\<lparr> fb_id := None \<rparr>)
                 exampleWorld = (Inl e, exampleWorld)"
    using importFeedback_validates_before_sending
            [of "exampleFeedback\<lparr> fb_id := None \<rparr>" exampleEnv exampleWorld None] n1
    by blast
  have 2: "snd (EnterpretClient_importFeedback exampleEnv exampleFeedback exampleWorld)
             = send exampleWorld (PostFeedback exampleFeedback)"
    using importFeedback_validates_before_sending
            [of exampleFeedback exampleEnv exampleWorld None] v
    by blast
  have 3: "\<exists>e. EnterpretClient_importFeedbackBatch exampleEnv (Some []) exampleWorld
         = (Inl e, exampleWorld)"
    using importFeedback_validates_before_sending
            [of exampleFeedback exampleEnv exampleWorld "Some []"]
    by blast
  have 4: "\<exists>e. EnterpretClient_importFeedbackBatch exampleEnv
           (Some [exampleFeedback, exampleFeedback\<lparr> fb_timestamp := Some [] \<rparr>]) exampleWorld
         = (Inl e, exampleWorld)"
    using importFeedback_validates_before_sending
            [of exampleFeedback exampleEnv exampleWorld
                "Some [exampleFeedback, exampleFeedback\<lparr> fb_timestamp := Some [] \<rparr>]"] n2
    by simp
  have 5: "snd (EnterpretClient_importFeedbackBatch exampleEnv
                  (Some [exampleFeedback, exampleFeedback]) exampleWorld)
     = send exampleWorld (PostFeedbackBatch [exampleFeedback, exampleFeedback])"
    using importFeedback_validates_before_sending
            [of exampleFeedback exampleEnv exampleWorld "Some [exampleFeedback, exampleFeedback]"] v
    by simp
  from 1 2 3 4 5 show ?thesis by blast
qed

section \<open>Source reader: the customer request and its redirects\<close>

lemma movedTo_None: "(movedTo E a = None) = (redirectTarget (customerEndpoint E a) = None)"
  by (simp add: movedTo_def)

lemma followRedirects_final:
  "movedTo E a = None \<Longrightarrow>
     followRedirects E n a w = (customerEndpoint E a, send w (GetCustomer a))"
  by (cases n) (simp_all add: movedTo_None)

lemma followRedirects_moved:
  "movedTo E a = Some b \<Longrightarrow>
     followRedirects E (Suc n) a w = followRedirects E n b (send w (GetCustomer a))"
  by (auto simp: movedTo_def)

lemma followRedirects_exceeded:
  "movedTo E a = Some b \<Longrightarrow>
     followRedirects E 0 a w
       = (Failure None None ''Maximum number of redirects exceeded'', send w (GetCustomer a))"
  by (auto simp: movedTo_def)

lemma followRedirects_chain:
  "movedChain E (ids @ [final]) \<Longrightarrow> movedTo E final = None \<Longrightarrow> length ids \<le> n \<Longrightarrow>
     followRedirects E n (hd (ids @ [final])) w
       = (customerEndpoint E final, foldl send w (map GetCustomer (ids @ [final])))"
proof (induction ids arbitrary: n w)
  case Nil
  then show ?case by (simp add: followRedirects_final)
next
  case (Cons a ids)
  from Cons.prems(1) have m: "movedTo E a = Some (hd (ids @ [final]))"
    and c: "movedChain E (ids @ [final])"
    by (cases ids; simp)+
  from Cons.prems(3) obtain k where n: "n = Suc k" and k: "length ids \<le> k"
    by (cases n) auto
  show ?case
    using followRedirects_moved [OF m, of k w]
      Cons.IH [OF c Cons.prems(2) k, of "send w (GetCustomer a)"] n
    by simp
qed

lemma followRedirects_too_long:
  "movedChain E ids \<Longrightarrow> n + 2 \<le> length ids \<Longrightarrow>
     followRedirects E n (hd ids) w
       = (Failure None None ''Maximum number of redirects exceeded'',
          foldl send w (map GetCustomer (take (n + 1) ids)))"
proof (induction n arbitrary: ids w)
  case 0
  then obtain a b rest where ids: "ids = a # b # rest"
    by (cases ids; cases "tl ids") auto
  with "0.prems"(1) have "movedTo E a = Some b" by simp
  from followRedirects_exceeded [OF this, of w] ids show ?case by simp
next
  case (Suc n)
  then obtain a b rest where ids: "ids = a # b # rest"
    by (cases ids; cases "tl ids") auto
  with Suc.prems have m: "movedTo E a = Some b" and c: "movedChain E (b # rest)"
    and l: "n + 2 \<le> length (b # rest)"
    by simp_all
  from followRedirects_moved [OF m, of n w] Suc.IH [OF c l, of "send w (GetCustomer a)"] ids
  show ?case by simp
qed

lemma followRedirects_answer:
  "redirectTarget (fst (followRedirects E n a w)) = None"
proof (induction n arbitrary: a w)
  case 0
  show ?case
    by (cases "redirectTarget (customerEndpoint E a)") (simp_all add: redirectTarget_def)
next
  case (Suc n)
  show ?case
    using Suc.IH by (cases "redirectTarget (customerEndpoint E a)") simp_all
qed

text \<open>
  \<open>fetchCustomer\<close> always returns: the answer it gets is never a 301 that has a
  \<open>Location\<close> header, so the call of itself in the \<open>catch\<close> block is not reached.
\<close>

lemma fetchCustomer_returns:
  "GladlyClient_fetchCustomer E a w
     = Some (clientOutcome (fst (getCustomerProfile E a w)), snd (getCustomerProfile E a w))"
proof -
  obtain answer w' where g: "getCustomerProfile E a w = (answer, w')"
    by (cases "getCustomerProfile E a w")
  then have r: "redirectTarget answer = None"
    using followRedirects_answer [of E maxRedirects a w] by (simp add: getCustomerProfile_def)
  show ?thesis
  proof (cases answer)
    case (Response d)
    with g show ?thesis
      by (subst GladlyClient_fetchCustomer.simps) (simp add: clientOutcome_def)
  next
    case (Failure status location m)
    with r have "status = Some 301 \<longrightarrow> location = None"
      by (auto simp: redirectTarget_def split: option.splits if_splits)
    with g Failure show ?thesis
      by (subst GladlyClient_fetchCustomer.simps) (auto simp: clientOutcome_def)
  qed
qed

lemma Importer_fetchCustomer_returns:
  "Importer_fetchCustomer E a w
     = Some (absentOnError (clientOutcome (fst (getCustomerProfile E a w))),
             snd (getCustomerProfile E a w))"
  by (cases "clientOutcome (fst (getCustomerProfile E a w))")
     (simp_all add: Importer_fetchCustomer_def fetchCustomer_returns absentOnError_def)

lemma fetchCustomer_chain:
  assumes "movedChain E (ids @ [final])" and "movedTo E final = None"
    and "length ids \<le> maxRedirects"
  shows "GladlyClient_fetchCustomer E (hd (ids @ [final])) w
           = Some (fetchOutcome E final, foldl send w (map GetCustomer (ids @ [final])))"
  using followRedirects_chain [OF assms, of w]
  by (simp add: fetchCustomer_returns getCustomerProfile_def fetchOutcome_def)

lemma fetchCustomer_too_long:
  assumes "movedChain E ids" and "maxRedirects + 2 \<le> length ids"
  shows "GladlyClient_fetchCustomer E (hd ids) w
           = Some (Inl (Error (''Failed to fetch customer: ''
                          @ ''Maximum number of redirects exceeded'')),
                   foldl send w (map GetCustomer (take (maxRedirects + 1) ids)))"
  using followRedirects_too_long [OF assms, of w]
  by (simp add: fetchCustomer_returns getCustomerProfile_def clientOutcome_def)

lemma Importer_fetchCustomer_absentOnError:
  "GladlyClient_fetchCustomer E a w = Some (r, w') \<Longrightarrow>
     Importer_fetchCustomer E a w = Some (absentOnError r, w')"
  by (cases r) (simp_all add: Importer_fetchCustomer_def absentOnError_def)

section \<open>The state file is written by the last step of a run only\<close>

lemma stateFile_send: "stateFile (send w r) = stateFile w"
  by (simp add: send_def)

lemma stateFile_validateConnections:
  "stateFile (snd (validateConnections E w)) = stateFile w"
  by (simp add: validateConnections_def Let_def stateFile_send split: httpResult.splits)

lemma stateFile_fetchConversations:
  "stateFile (snd (GladlyClient_fetchConversations E s e p n w)) = stateFile w"
  by (simp add: GladlyClient_fetchConversations_def Let_def stateFile_send
        split: httpResult.splits option.splits)

lemma stateFile_fetchConversationsLoop:
  assumes "fetchConversationsLoop E s e lim acc p w = Some y"
  shows "stateFile (snd y) = stateFile w"
proof (induction rule: fetchConversationsLoop.raw_induct [OF _ assms])
  case (1 loop E s e lim acc p w y)
  obtain r w1 where f: "GladlyClient_fetchConversations E s e p (batchSize E) w = (r, w1)"
    by (cases "GladlyClient_fetchConversations E s e p (batchSize E) w")
  then have w1: "stateFile w1 = stateFile w"
    using stateFile_fetchConversations [of E s e p "batchSize E" w] by simp
  have step: "stateFile (snd y) = stateFile w"
    if "loop E s e lim acc' p' w1 = Some y" for acc' p'
    using "1"(1) [OF that] w1 by simp
  show ?case
    using "1"(2) f w1 step
    by (auto simp: Let_def split: sum.splits prod.splits option.splits if_splits)
qed

lemma stateFile_followRedirects:
  "stateFile (snd (followRedirects E n a w)) = stateFile w"
proof (induction n arbitrary: a w)
  case 0
  show ?case
    by (cases "redirectTarget (customerEndpoint E a)") (simp_all add: stateFile_send)
next
  case (Suc n)
  show ?case
    using Suc.IH by (cases "redirectTarget (customerEndpoint E a)") (simp_all add: stateFile_send)
qed

lemma stateFile_fetchCustomer:
  assumes "GladlyClient_fetchCustomer E cid w = Some y"
  shows "stateFile (snd y) = stateFile w"
  using assms stateFile_followRedirects [of E maxRedirects cid w]
  by (auto simp: fetchCustomer_returns getCustomerProfile_def)

lemma stateFile_Importer_fetchConversationItems:
  "stateFile (snd (Importer_fetchConversationItems E cid w)) = stateFile w"
  by (simp add: Importer_fetchConversationItems_def GladlyClient_fetchConversationItems_def
        stateFile_send split: httpResult.splits)

lemma stateFile_Importer_fetchCustomer:
  assumes "Importer_fetchCustomer E cid w = Some y"
  shows "stateFile (snd y) = stateFile w"
proof -
  from assms obtain z where z: "GladlyClient_fetchCustomer E cid w = Some z" and "snd y = snd z"
    by (auto simp: Importer_fetchCustomer_def split: option.splits sum.splits prod.splits)
  with stateFile_fetchCustomer [OF z] show ?thesis by simp
qed

lemma stateFile_importFeedback:
  "stateFile (snd (EnterpretClient_importFeedback E d w)) = stateFile w"
  by (simp add: EnterpretClient_importFeedback_def stateFile_send
        split: sum.splits httpResult.splits)

lemma stateFile_processConversation:
  assumes "processConversation P E conv s = Some s'"
  shows "stateFile (snd s') = stateFile (snd s)"
proof -
  obtain m w where s: "s = (m, w)" by (cases s)
  obtain items w1 where i: "Importer_fetchConversationItems E (render (conv_id conv)) w = (items, w1)"
    by (cases "Importer_fetchConversationItems E (render (conv_id conv)) w")
  then have w1: "stateFile w1 = stateFile w"
    using stateFile_Importer_fetchConversationItems [of E "render (conv_id conv)" w] by simp
  from assms s i obtain cust w2 where
    c: "Importer_fetchCustomer E (render (conv_customerId conv)) w1 = Some (cust, w2)"
    by (auto simp: processConversation_def Let_def split: option.splits)
  then have w2: "stateFile w2 = stateFile w1"
    using stateFile_Importer_fetchCustomer by fastforce
  show ?thesis
  proof (cases "transformConversation P conv (Some items) cust")
    case (Inl e)
    with assms s i c show ?thesis using w1 w2
      by (auto simp: processConversation_def Let_def)
  next
    case (Inr t)
    obtain r w3 where f: "EnterpretClient_importFeedback E t w2 = (r, w3)"
      by (cases "EnterpretClient_importFeedback E t w2")
    then have "stateFile w3 = stateFile w2"
      using stateFile_importFeedback [of E t w2] by simp
    with assms s i c Inr f show ?thesis using w1 w2
      by (auto simp: processConversation_def Let_def split: sum.splits)
  qed
qed

lemma stateFile_processConversations:
  "processConversations P E convs s = Some s' \<Longrightarrow> stateFile (snd s') = stateFile (snd s)"
proof (induction convs arbitrary: s)
  case Nil
  then show ?case by simp
next
  case (Cons c convs)
  from Cons.prems obtain s1 where 1: "processConversation P E c s = Some s1"
    and 2: "processConversations P E convs s1 = Some s'"
    by (auto split: option.splits)
  from Cons.IH [OF 2] stateFile_processConversation [OF 1] show ?case by simp
qed


lemma importRun_state:
  assumes "importRun P E opts w = Some (res, w')"
  shows "(\<forall>e. res = Inl e \<longrightarrow> stateFile w' = stateFile w) \<and>
         (\<forall>m. res = Inr m \<and> errorsCount m \<noteq> 0 \<longrightarrow> stateFile w' = stateFile w) \<and>
         (\<forall>m. res = Inr m \<and> errorsCount m = 0 \<and> \<not> stateFileWritable E \<longrightarrow>
              stateFile w' = stateFile w) \<and>
         (\<forall>m. res = Inr m \<and> errorsCount m = 0 \<and> stateFileWritable E \<longrightarrow>
              StateManager_getLastImportTime w' = Some (resolvedEndDate E opts))"
proof -
  obtain v w1 where v: "validateConnections E w = (v, w1)"
    by (cases "validateConnections E w")
  then have w1: "stateFile w1 = stateFile w"
    using stateFile_validateConnections [of E w] by simp
  show ?thesis
  proof (cases v)
    case (Inl e)
    with assms v w1 show ?thesis by (auto simp: importRun_def Let_def)
  next
    case (Inr u)
    let ?s = "determineStartDate E (opt_isFullImport opts) (opt_startDate opts) w1"
    let ?e = "resolvedEndDate E opts"
    from assms v Inr obtain c w2 where
      c: "Importer_fetchConversations E ?s ?e (opt_limit opts) w1 = Some (c, w2)"
      by (auto simp: importRun_def Let_def split: option.splits)
    then have w2: "stateFile w2 = stateFile w1"
      using stateFile_fetchConversationsLoop by (fastforce simp: Importer_fetchConversations_def)
    show ?thesis
    proof (cases c)
      case (Inl e)
      with assms v \<open>v = Inr u\<close> c w1 w2 show ?thesis by (auto simp: importRun_def Let_def)
    next
      case (Inr convs)
      let ?m0 = "\<lparr> conversationsCount = 0, itemsCount = 0, customersCount = 0,
                    errorsCount = 0, startTime = clockStart E, endTime = None \<rparr>
                   \<lparr> conversationsCount := length convs \<rparr>"
      from assms v \<open>v = Inr u\<close> c Inr obtain m w3 where
        p: "processConversations P E convs (?m0, w2) = Some (m, w3)"
        by (auto simp: importRun_def Let_def split: option.splits)
      then have w3: "stateFile w3 = stateFile w2"
        using stateFile_processConversations by fastforce
      have run: "importRun P E opts w =
          (if errorsCount m = 0 then
             (case StateManager_updateLastImportTime E ?e w3 of
                (ok, w4) \<Rightarrow> Some (Inr (m\<lparr> endTime := Some (clockEnd E) \<rparr>), w4))
           else Some (Inr (m\<lparr> endTime := Some (clockEnd E) \<rparr>), w3))"
        using v \<open>v = Inr u\<close> c Inr p by (simp add: importRun_def Let_def)
      show ?thesis
        using assms run w1 w2 w3
        by (auto simp: StateManager_updateLastImportTime_def StateManager_getLastImportTime_def
              split: if_splits)
    qed
  qed
qed

lemmas exampleRun_defs =
  importRun_def validateConnections_def send_def exampleEnv_def exampleWorld_def
  exampleOptions_def determineStartDate_def StateManager_getLastImportTime_def
  resolvedEndDate_def Importer_fetchConversations_def fetchConversationsLoop.simps
  GladlyClient_fetchConversations_def batchSize_def processConversation_def
  Importer_fetchConversationItems_def GladlyClient_fetchConversationItems_def
  Importer_fetchCustomer_returns getCustomerProfile_def followRedirects_final movedTo_def
  redirectTarget_def clientOutcome_def absentOnError_def render_def
  exampleConversation_def transformConversation_def determinePrimaryChannel_def
  processConversationItems_def EnterpretClient_importFeedback_def
  validateFeedbackData_def truthy_def StateManager_updateLastImportTime_def Let_def

text \<open>
  Claim C2, as amended. For a run that returns: if it throws, or if its error count is
  not zero, the state file is what it was before the run; if its error count is zero and
  the state file can be written, the stored \<open>lastImportTime\<close> is the resolved end date
  of the run. So the stored time does not go back when the resolved end date is not
  earlier than the time stored before the run. (Nothing compares the two: an explicit end
  date that lies before the stored time moves it back, and a failed write leaves the old
  time in place; both are in the counterexample.)
\<close>

theorem lastImportTime_rewritten_only_after_clean_run:
  assumes "importRun P E opts w = Some (res, w')"
  shows "(\<forall>e. res = Inl e \<longrightarrow> stateFile w' = stateFile w) \<and>
         (\<forall>m. res = Inr m \<and> errorsCount m \<noteq> 0 \<longrightarrow> stateFile w' = stateFile w) \<and>
         (\<forall>m. res = Inr m \<and> errorsCount m = 0 \<and> stateFileWritable E \<longrightarrow>
              StateManager_getLastImportTime w' = Some (resolvedEndDate E opts)) \<and>
         (\<forall>t. StateManager_getLastImportTime w = Some t \<and> t \<le> resolvedEndDate E opts \<longrightarrow>
              (\<exists>t'. StateManager_getLastImportTime w' = Some t' \<and> t \<le> t'))"
proof -
  note S = importRun_state [OF assms]
  have 4: "\<forall>t. StateManager_getLastImportTime w = Some t \<and> t \<le> resolvedEndDate E opts \<longrightarrow>
              (\<exists>t'. StateManager_getLastImportTime w' = Some t' \<and> t \<le> t')"
  proof (intro allI impI)
    fix t assume t: "StateManager_getLastImportTime w = Some t \<and> t \<le> resolvedEndDate E opts"
    show "\<exists>t'. StateManager_getLastImportTime w' = Some t' \<and> t \<le> t'"
    proof (cases "\<exists>m. res = Inr m \<and> errorsCount m = 0 \<and> stateFileWritable E")
      case True
      with S t show ?thesis by auto
    next
      case False
      then have "stateFile w' = stateFile w" using S by (cases res) auto
      with t show ?thesis by (auto simp: StateManager_getLastImportTime_def)
    qed
  qed
  from S 4 show ?thesis by blast
qed

text \<open>
  The claim as it stands fails in two ways. With the time 2000 stored, a run without
  errors and with the explicit end date 1000 stores 1000, which is earlier. And a run
  without errors whose write of the state file fails leaves 2000 in place, not its
  resolved end date 9001.
\<close>

theorem lastImportTime_moves_backward_counterexample:
  "StateManager_getLastImportTime exampleWorld = Some 2000 \<and>
   resolvedEndDate exampleEnv (exampleOptions (Some 1000)) = 1000 \<and>
   runErrors (importRun examplePlatform exampleEnv (exampleOptions (Some 1000)) exampleWorld)
     = Some 0 \<and>
   runLastImportTime (importRun examplePlatform exampleEnv (exampleOptions (Some 1000)) exampleWorld)
     = Some 1000 \<and>
   resolvedEndDate (exampleEnv\<lparr> stateFileWritable := False \<rparr>) (exampleOptions None) = 9001 \<and>
   runErrors (importRun examplePlatform (exampleEnv\<lparr> stateFileWritable := False \<rparr>)
                (exampleOptions None) exampleWorld) = Some 0 \<and>
   runLastImportTime (importRun examplePlatform (exampleEnv\<lparr> stateFileWritable := False \<rparr>)
                (exampleOptions None) exampleWorld) = Some 2000"
  by (simp add: runErrors_def runLastImportTime_def exampleRun_defs)

theorem lastImportTime_rewritten_only_after_clean_run_witness:
  "runErrors (importRun examplePlatform exampleEnv (exampleOptions None) exampleWorld) = Some 0 \<and>
   runLastImportTime (importRun examplePlatform exampleEnv (exampleOptions None) exampleWorld)
     = Some 9001 \<and>
   runErrors (importRun examplePlatform
                (exampleEnv\<lparr> feedbackEndpoint := (\<lambda>d. Failure (Some 503) None ''unavailable'') \<rparr>)
                (exampleOptions None) exampleWorld) = Some 1 \<and>
   runLastImportTime (importRun examplePlatform
                (exampleEnv\<lparr> feedbackEndpoint := (\<lambda>d. Failure (Some 503) None ''unavailable'') \<rparr>)
                (exampleOptions None) exampleWorld) = Some 2000"
proof -
  let ?E' = "exampleEnv\<lparr> feedbackEndpoint := (\<lambda>d. Failure (Some 503) None ''unavailable'') \<rparr>"
  have "\<exists>m w'. importRun examplePlatform exampleEnv (exampleOptions None) exampleWorld
                  = Some (Inr m, w') \<and> errorsCount m = 0"
    by (simp add: exampleRun_defs)
  then obtain m w' where
    run: "importRun examplePlatform exampleEnv (exampleOptions None) exampleWorld = Some (Inr m, w')"
    and m: "errorsCount m = 0"
    by blast
  have "\<exists>m w'. importRun examplePlatform ?E' (exampleOptions None) exampleWorld
                  = Some (Inr m, w') \<and> errorsCount m = 1"
    by (simp add: exampleRun_defs)
  then obtain m2 w2 where
    run2: "importRun examplePlatform ?E' (exampleOptions None) exampleWorld = Some (Inr m2, w2)"
    and m2: "errorsCount m2 = 1"
    by blast
  have wr: "stateFileWritable exampleEnv" by (simp add: exampleEnv_def)
  have e: "resolvedEndDate exampleEnv (exampleOptions None) = 9001"
    by (simp add: resolvedEndDate_def exampleOptions_def exampleEnv_def)
  have 1: "StateManager_getLastImportTime w' = Some 9001"
    using lastImportTime_rewritten_only_after_clean_run [OF run] m wr e by simp
  have "stateFile w2 = stateFile exampleWorld"
    using lastImportTime_rewritten_only_after_clean_run [OF run2] m2 by simp
  then have 2: "StateManager_getLastImportTime w2 = Some 2000"
    by (simp add: StateManager_getLastImportTime_def exampleWorld_def)
  show ?thesis using run run2 m m2 1 2 by (simp add: runErrors_def runLastImportTime_def)
qed

section \<open>Source reader: moved customers and failed requests\<close>

lemma processConversation_delivers:
  assumes items: "Importer_fetchConversationItems E (render (conv_id conv)) w = (items, w1)"
    and cust: "Importer_fetchCustomer E (render (conv_customerId conv)) w1 = Some (customer, w2)"
    and t: "transformConversation P conv (Some items) customer = Inr t"
    and cr: "truthy (conv_createdAt conv)"
  shows "\<exists>m'. processConversation P E conv (m, w) = Some (m', send w2 (PostFeedback t)) \<and>
           errorsCount m' =
             errorsCount m + (case feedbackEndpoint E t of Response d \<Rightarrow> 0 | Failure s l e \<Rightarrow> 1)"
proof -
  have v: "validateFeedbackData t = Inr ()"
    using t cr
    by (auto simp: transformConversation_def Let_def validateFeedbackData_def truthy_def
          split: option.splits sum.splits)
  show ?thesis
    using items cust t v
    by (auto simp: processConversation_def Let_def EnterpretClient_importFeedback_def
          split: httpResult.splits)
qed

lemma transformConversation_valid_items:
  assumes "conv_status conv \<noteq> None" and "list_all validTimestamp items"
  shows "\<exists>t. transformConversation P conv (Some items) customer = Inr t"
  using assms transformConversation_returns [of P conv "Some items" customer]
    processConversationItems_valid [of items P]
  by auto

lemma transformConversation_customer:
  "transformConversation P conv items customer = Inr t \<Longrightarrow>
     fb_customer t = map_option transformCustomer customer"
  by (auto simp: transformConversation_def Let_def split: option.splits sum.splits)

text \<open>
  Claim C4, as amended. A moved signal is answered with a request for the new id, and so
  is every further one, up to 21 in a row for one call (the HTTP client follows them by
  itself, with that limit): along a chain of at most 21 moves there is one request per
  id, in order, and the result is that of the last request. (It does not give up after
  the first retry.) When the chain ends in a profile, the importer gets that profile;
  when it ends in a failure, or when more than 21 moves follow each other, as on a cycle
  of moved customers, the importer gets no customer. \<open>fetchCustomer\<close> always returns.
  With no customer, a conversation that has a status and a \<open>createdAt\<close> and whose items
  have valid timestamps is transformed without customer and sent.
\<close>

theorem fetchCustomer_follows_moves_up_to_limit:
  assumes "movedChain E (ids @ [final])" and "movedTo E final = None"
    and "length ids \<le> maxRedirects"
  shows "GladlyClient_fetchCustomer E (hd (ids @ [final])) w
           = Some (fetchOutcome E final, foldl send w (map GetCustomer (ids @ [final]))) \<and>
         Importer_fetchCustomer E (hd (ids @ [final])) w
           = Some (absentOnError (fetchOutcome E final),
                   foldl send w (map GetCustomer (ids @ [final]))) \<and>
         (\<forall>d. customerEndpoint E final = Response d \<longrightarrow>
              absentOnError (fetchOutcome E final) = d) \<and>
         ((\<forall>d. customerEndpoint E final \<noteq> Response d) \<longrightarrow>
              absentOnError (fetchOutcome E final) = None) \<and>
         (\<forall>conv items w0 m.
            (\<forall>d. customerEndpoint E final \<noteq> Response d) \<and>
            render (conv_customerId conv) = hd (ids @ [final]) \<and>
            Importer_fetchConversationItems E (render (conv_id conv)) w0 = (items, w) \<and>
            conv_status conv \<noteq> None \<and> truthy (conv_createdAt conv) \<and>
            list_all validTimestamp items \<longrightarrow>
            (\<exists>t m'. transformConversation P conv (Some items) None = Inr t \<and>
               fb_customer t = None \<and>
               processConversation P E conv (m, w0)
                 = Some (m', send (foldl send w (map GetCustomer (ids @ [final])))
                               (PostFeedback t)))) \<and>
         (\<forall>longer. movedChain E longer \<and> maxRedirects + 2 \<le> length longer \<longrightarrow>
            Importer_fetchCustomer E (hd longer) w
              = Some (None, foldl send w (map GetCustomer (take (maxRedirects + 1) longer)))) \<and>
         (\<forall>customerId. \<exists>result. GladlyClient_fetchCustomer E customerId w = Some result)"
proof -
  let ?w' = "foldl send w (map GetCustomer (ids @ [final]))"
  note c = fetchCustomer_chain [OF assms, of w]
  note i = Importer_fetchCustomer_absentOnError [OF c]
  have 3: "\<forall>d. customerEndpoint E final = Response d \<longrightarrow> absentOnError (fetchOutcome E final) = d"
    by (simp add: fetchOutcome_def clientOutcome_def absentOnError_def)
  have 4: "(\<forall>d. customerEndpoint E final \<noteq> Response d) \<longrightarrow>
              absentOnError (fetchOutcome E final) = None"
    by (cases "customerEndpoint E final")
       (simp_all add: fetchOutcome_def clientOutcome_def absentOnError_def)
  have 5: "\<forall>conv items w0 m.
            (\<forall>d. customerEndpoint E final \<noteq> Response d) \<and>
            render (conv_customerId conv) = hd (ids @ [final]) \<and>
            Importer_fetchConversationItems E (render (conv_id conv)) w0 = (items, w) \<and>
            conv_status conv \<noteq> None \<and> truthy (conv_createdAt conv) \<and>
            list_all validTimestamp items \<longrightarrow>
            (\<exists>t m'. transformConversation P conv (Some items) None = Inr t \<and>
               fb_customer t = None \<and>
               processConversation P E conv (m, w0) = Some (m', send ?w' (PostFeedback t)))"
  proof (intro allI impI)
    fix conv :: conversation and items w0 m
    assume h: "(\<forall>d. customerEndpoint E final \<noteq> Response d) \<and>
            render (conv_customerId conv) = hd (ids @ [final]) \<and>
            Importer_fetchConversationItems E (render (conv_id conv)) w0 = (items, w) \<and>
            conv_status conv \<noteq> None \<and> truthy (conv_createdAt conv) \<and>
            list_all validTimestamp items"
    then have a: "absentOnError (fetchOutcome E final) = None" using 4 by blast
    from h i a have cu: "Importer_fetchCustomer E (render (conv_customerId conv)) w = Some (None, ?w')"
      by simp
    from h have it: "Importer_fetchConversationItems E (render (conv_id conv)) w0 = (items, w)"
      and st: "conv_status conv \<noteq> None" and cr: "truthy (conv_createdAt conv)"
      and va: "list_all validTimestamp items"
      by blast+
    from transformConversation_valid_items [OF st va, of P None]
    obtain t where t: "transformConversation P conv (Some items) None = Inr t" by blast
    from processConversation_delivers [OF it cu t cr, of m]
    obtain m' where p: "processConversation P E conv (m, w0) = Some (m', send ?w' (PostFeedback t))"
      by blast
    have "fb_customer t = None" using transformConversation_customer [OF t] by simp
    with t p show "\<exists>t m'. transformConversation P conv (Some items) None = Inr t \<and>
               fb_customer t = None \<and>
               processConversation P E conv (m, w0) = Some (m', send ?w' (PostFeedback t))"
      by blast
  qed
  have 6: "\<forall>longer. movedChain E longer \<and> maxRedirects + 2 \<le> length longer \<longrightarrow>
            Importer_fetchCustomer E (hd longer) w
              = Some (None, foldl send w (map GetCustomer (take (maxRedirects + 1) longer)))"
  proof (intro allI impI)
    fix longer
    assume "movedChain E longer \<and> maxRedirects + 2 \<le> length longer"
    then have "GladlyClient_fetchCustomer E (hd longer) w
           = Some (Inl (Error (''Failed to fetch customer: ''
                          @ ''Maximum number of redirects exceeded'')),
                   foldl send w (map GetCustomer (take (maxRedirects + 1) longer)))"
      using fetchCustomer_too_long by blast
    from Importer_fetchCustomer_absentOnError [OF this]
    show "Importer_fetchCustomer E (hd longer) w
              = Some (None, foldl send w (map GetCustomer (take (maxRedirects + 1) longer)))"
      by (simp add: absentOnError_def)
  qed
  have 7: "\<forall>customerId. \<exists>result. GladlyClient_fetchCustomer E customerId w = Some result"
    by (simp add: fetchCustomer_returns)
  from c i 3 4 5 6 7 show ?thesis by blast
qed

theorem fetchCustomer_follows_moves_up_to_limit_witness:
  "Importer_fetchCustomer exampleEnv ''b'' exampleWorld
     = Some (Some exampleCustomer,
             exampleWorld\<lparr> requests := [GetCustomer ''b'', GetCustomer ''c''] \<rparr>) \<and>
   Importer_fetchCustomer exampleEnv ''old'' exampleWorld
     = Some (None, exampleWorld\<lparr> requests := [GetCustomer ''old'', GetCustomer ''missing''] \<rparr>) \<and>
   (\<exists>t m'. transformConversation examplePlatform exampleConversation (Some []) None = Inr t \<and>
       fb_customer t = None \<and>
       processConversation examplePlatform exampleEnv exampleConversation
           (exampleMetrics, exampleWorld)
         = Some (m', exampleWorld\<lparr> requests :=
                       [GetItems ''c1'', GetCustomer ''cust-1'', PostFeedback t] \<rparr>)) \<and>
   (\<exists>w'. Importer_fetchCustomer exampleEnv ''x'' exampleWorld = Some (None, w') \<and>
         length (requests w') = 22)"
proof -
  have mb: "movedChain exampleEnv ([''b''] @ [''c''])"
    by (simp add: movedTo_def redirectTarget_def exampleEnv_def lastSegment_def)
  have mc: "movedTo exampleEnv ''c'' = None"
    by (simp add: movedTo_def redirectTarget_def exampleEnv_def)
  have l1: "length [''b''] \<le> maxRedirects" by (simp add: maxRedirects_def)
  have 1: "Importer_fetchCustomer exampleEnv ''b'' exampleWorld
     = Some (Some exampleCustomer,
             exampleWorld\<lparr> requests := [GetCustomer ''b'', GetCustomer ''c''] \<rparr>)"
    using fetchCustomer_follows_moves_up_to_limit [OF mb mc l1, of exampleWorld examplePlatform]
    by (simp add: fetchOutcome_def clientOutcome_def absentOnError_def exampleEnv_def send_def
          exampleWorld_def)
  have mo: "movedChain exampleEnv ([''old''] @ [''missing''])"
    by (simp add: movedTo_def redirectTarget_def exampleEnv_def lastSegment_def)
  have mm: "movedTo exampleEnv ''missing'' = None"
    by (simp add: movedTo_def redirectTarget_def exampleEnv_def)
  have l2: "length [''old''] \<le> maxRedirects" by (simp add: maxRedirects_def)
  have 2: "Importer_fetchCustomer exampleEnv ''old'' exampleWorld
     = Some (None, exampleWorld\<lparr> requests := [GetCustomer ''old'', GetCustomer ''missing''] \<rparr>)"
    using fetchCustomer_follows_moves_up_to_limit [OF mo mm l2, of exampleWorld examplePlatform]
    by (simp add: fetchOutcome_def clientOutcome_def absentOnError_def exampleEnv_def send_def
          exampleWorld_def)
  have m1: "movedChain exampleEnv ([] @ [''cust-1''])" by simp
  have m2: "movedTo exampleEnv ''cust-1'' = None"
    by (simp add: movedTo_def redirectTarget_def exampleEnv_def)
  have l3: "length ([] :: string list) \<le> maxRedirects" by simp
  note T = fetchCustomer_follows_moves_up_to_limit
             [OF m1 m2 l3, of "send exampleWorld (GetItems ''c1'')" examplePlatform]
  have h: "(\<forall>d. customerEndpoint exampleEnv ''cust-1'' \<noteq> Response d) \<and>
        render (conv_customerId exampleConversation) = hd ([] @ [''cust-1'']) \<and>
        Importer_fetchConversationItems exampleEnv (render (conv_id exampleConversation))
            exampleWorld = ([], send exampleWorld (GetItems ''c1'')) \<and>
        conv_status exampleConversation \<noteq> None \<and> truthy (conv_createdAt exampleConversation) \<and>
        list_all validTimestamp []"
    by (simp add: exampleEnv_def exampleConversation_def render_def truthy_def
          Importer_fetchConversationItems_def GladlyClient_fetchConversationItems_def)
  from T h
  have "\<exists>t m'. transformConversation examplePlatform exampleConversation (Some []) None = Inr t \<and>
       fb_customer t = None \<and>
       processConversation examplePlatform exampleEnv exampleConversation
           (exampleMetrics, exampleWorld)
         = Some (m', send (foldl send (send exampleWorld (GetItems ''c1''))
                             (map GetCustomer ([] @ [''cust-1''])))
                          (PostFeedback t))"
    by blast
  then have 3: "\<exists>t m'. transformConversation examplePlatform exampleConversation (Some []) None = Inr t \<and>
       fb_customer t = None \<and>
       processConversation examplePlatform exampleEnv exampleConversation
           (exampleMetrics, exampleWorld)
         = Some (m', exampleWorld\<lparr> requests :=
                       [GetItems ''c1'', GetCustomer ''cust-1'', PostFeedback t] \<rparr>)"
    by (simp add: send_def exampleWorld_def)
  let ?cycle = "concat (replicate 12 [''x'', ''y''])"
  have cy: "movedChain exampleEnv ?cycle \<and> maxRedirects + 2 \<le> length ?cycle"
    by (simp add: movedTo_def redirectTarget_def exampleEnv_def lastSegment_def maxRedirects_def
          eval_nat_numeral)
  have hx: "hd ?cycle = ''x''" by (simp add: eval_nat_numeral)
  note T' = fetchCustomer_follows_moves_up_to_limit
             [OF m1 m2 l3, of exampleWorld examplePlatform]
  from T' cy have "Importer_fetchCustomer exampleEnv (hd ?cycle) exampleWorld
      = Some (None, foldl send exampleWorld
                      (map GetCustomer (take (maxRedirects + 1) ?cycle)))"
    by blast
  then have 4: "\<exists>w'. Importer_fetchCustomer exampleEnv ''x'' exampleWorld = Some (None, w') \<and>
         length (requests w') = 22"
    by (simp add: maxRedirects_def eval_nat_numeral send_def exampleWorld_def)
  from 1 2 3 4 show ?thesis by blast
qed

text \<open>
  The claim as it stands (one retry, then giving up) fails on a customer moved twice:
  for \<open>a\<close> moved to \<open>b\<close> and \<open>b\<close> moved to \<open>c\<close>, three requests are issued and the
  profile of \<open>c\<close> is returned.
\<close>

theorem fetchCustomer_retries_twice_counterexample:
  "movedTo exampleEnv ''a'' = Some ''b'' \<and>
   movedTo exampleEnv ''b'' = Some ''c'' \<and>
   GladlyClient_fetchCustomer exampleEnv ''a'' exampleWorld
     = Some (Inr (Some exampleCustomer),
             exampleWorld\<lparr> requests := [GetCustomer ''a'', GetCustomer ''b'', GetCustomer ''c''] \<rparr>) \<and>
   Importer_fetchCustomer exampleEnv ''a'' exampleWorld
     = Some (Some exampleCustomer,
             exampleWorld\<lparr> requests := [GetCustomer ''a'', GetCustomer ''b'', GetCustomer ''c''] \<rparr>)"
proof -
  have a: "movedTo exampleEnv ''a'' = Some ''b''" and b: "movedTo exampleEnv ''b'' = Some ''c''"
    and c: "movedTo exampleEnv ''c'' = None"
    by (simp_all add: movedTo_def redirectTarget_def exampleEnv_def lastSegment_def)
  have m: "movedChain exampleEnv ([''a'', ''b''] @ [''c''])" using a b by simp
  have l: "length [''a'', ''b''] \<le> maxRedirects" by (simp add: maxRedirects_def)
  have g: "GladlyClient_fetchCustomer exampleEnv ''a'' exampleWorld
     = Some (Inr (Some exampleCustomer),
             exampleWorld\<lparr> requests := [GetCustomer ''a'', GetCustomer ''b'', GetCustomer ''c''] \<rparr>)"
    using fetchCustomer_chain [OF m c l, of exampleWorld]
    by (simp add: fetchOutcome_def clientOutcome_def exampleEnv_def send_def exampleWorld_def)
  from Importer_fetchCustomer_absentOnError [OF g] a b g show ?thesis
    by (simp add: absentOnError_def)
qed

lemma Importer_fetchConversationItems_unavailable:
  "itemsUnavailable E cid \<Longrightarrow>
     Importer_fetchConversationItems E cid w = ([], send w (GetItems cid))"
  by (auto simp: itemsUnavailable_def Importer_fetchConversationItems_def
        GladlyClient_fetchConversationItems_def split: httpResult.splits)

lemma GladlyClient_fetchConversationItems_failure:
  "itemsEndpoint E cid = Failure status location msg \<Longrightarrow>
     GladlyClient_fetchConversationItems E cid w
       = (Inl (Error (''Failed to fetch conversation items: '' @ msg)), send w (GetItems cid))"
  by (simp add: GladlyClient_fetchConversationItems_def)

lemma transformConversation_empty_items:
  "transformConversation P conv (Some []) customer = Inr t \<Longrightarrow>
     fb_content t = Some [] \<and> fb_channel t = Some ''other''"
  by (auto simp: transformConversation_def Let_def determinePrimaryChannel_def
        processConversationItems_def split: option.splits sum.splits)

text \<open>
  Claim C5. When the items request of a conversation fails, or its answer holds no
  items, the importer's \<open>_fetchConversationItems\<close> returns the empty list (it is this
  wrapper that turns the error thrown by the client's \<open>fetchConversationItems\<close> into the
  empty list). The conversation is then processed as one without items: if it has a
  status and a \<open>createdAt\<close>, its record, with the empty content and the channel
  \<open>other\<close>, is sent, and no error is counted unless the destination refuses it.
\<close>

theorem failed_items_fetch_degrades_to_no_content:
  assumes "itemsUnavailable E conversationId"
  shows "Importer_fetchConversationItems E conversationId w = ([], send w (GetItems conversationId)) \<and>
         (\<forall>status location msg.
            itemsEndpoint E conversationId = Failure status location msg \<longrightarrow>
            GladlyClient_fetchConversationItems E conversationId w
              = (Inl (Error (''Failed to fetch conversation items: '' @ msg)),
                 send w (GetItems conversationId))) \<and>
         (\<forall>conv customer w2 m.
            render (conv_id conv) = conversationId \<and>
            Importer_fetchCustomer E (render (conv_customerId conv))
              (send w (GetItems conversationId)) = Some (customer, w2) \<and>
            conv_status conv \<noteq> None \<and> truthy (conv_createdAt conv) \<longrightarrow>
            (\<exists>t m'. transformConversation P conv (Some []) customer = Inr t \<and>
               fb_content t = Some [] \<and> fb_channel t = Some ''other'' \<and>
               processConversation P E conv (m, w) = Some (m', send w2 (PostFeedback t)) \<and>
               itemsCount m' = itemsCount m \<and>
               ((\<exists>d. feedbackEndpoint E t = Response d) \<longrightarrow> errorsCount m' = errorsCount m)))"
proof -
  note 1 = Importer_fetchConversationItems_unavailable [OF assms, of w]
  have 3: "\<forall>conv customer w2 m.
            render (conv_id conv) = conversationId \<and>
            Importer_fetchCustomer E (render (conv_customerId conv))
              (send w (GetItems conversationId)) = Some (customer, w2) \<and>
            conv_status conv \<noteq> None \<and> truthy (conv_createdAt conv) \<longrightarrow>
            (\<exists>t m'. transformConversation P conv (Some []) customer = Inr t \<and>
               fb_content t = Some [] \<and> fb_channel t = Some ''other'' \<and>
               processConversation P E conv (m, w) = Some (m', send w2 (PostFeedback t)) \<and>
               itemsCount m' = itemsCount m \<and>
               ((\<exists>d. feedbackEndpoint E t = Response d) \<longrightarrow> errorsCount m' = errorsCount m))"
  proof (intro allI impI)
    fix conv :: conversation and customer w2 and m :: metrics
    assume h: "render (conv_id conv) = conversationId \<and>
            Importer_fetchCustomer E (render (conv_customerId conv))
              (send w (GetItems conversationId)) = Some (customer, w2) \<and>
            conv_status conv \<noteq> None \<and> truthy (conv_createdAt conv)"
    from h 1 have it: "Importer_fetchConversationItems E (render (conv_id conv)) w
                         = ([], send w (GetItems conversationId))"
      by simp
    from h have cu: "Importer_fetchCustomer E (render (conv_customerId conv))
              (send w (GetItems conversationId)) = Some (customer, w2)"
      and st: "conv_status conv \<noteq> None" and cr: "truthy (conv_createdAt conv)"
      by blast+
    from transformConversation_valid_items [OF st, of "[]" P customer]
    obtain t where t: "transformConversation P conv (Some []) customer = Inr t" by auto
    from processConversation_delivers [OF it cu t cr, of m]
    obtain m' where p: "processConversation P E conv (m, w) = Some (m', send w2 (PostFeedback t))"
      and e: "errorsCount m' = errorsCount m
                + (case feedbackEndpoint E t of Response d \<Rightarrow> 0 | Failure s l e \<Rightarrow> 1)"
      by blast
    have ic: "itemsCount m' = itemsCount m"
      using p it cu t
      by (auto simp: processConversation_def Let_def split: sum.splits prod.splits if_splits)
    have "(\<exists>d. feedbackEndpoint E t = Response d) \<longrightarrow> errorsCount m' = errorsCount m"
      using e by auto
    with t p ic transformConversation_empty_items [OF t]
    show "\<exists>t m'. transformConversation P conv (Some []) customer = Inr t \<and>
               fb_content t = Some [] \<and> fb_channel t = Some ''other'' \<and>
               processConversation P E conv (m, w) = Some (m', send w2 (PostFeedback t)) \<and>
               itemsCount m' = itemsCount m \<and>
               ((\<exists>d. feedbackEndpoint E t = Response d) \<longrightarrow> errorsCount m' = errorsCount m)"
      by blast
  qed
  from 1 GladlyClient_fetchConversationItems_failure [of E conversationId _ _ _ w] 3
  show ?thesis by blast
qed

theorem failed_items_fetch_degrades_to_no_content_witness:
  "Importer_fetchConversationItems exampleEnv ''c1'' exampleWorld
     = ([], send exampleWorld (GetItems ''c1'')) \<and>
   (\<exists>t m'. fb_content t = Some [] \<and> fb_channel t = Some ''other'' \<and>
       processConversation examplePlatform exampleEnv exampleConversation
           (exampleMetrics, exampleWorld)
         = Some (m', exampleWorld\<lparr> requests :=
                       [GetItems ''c1'', GetCustomer ''cust-1'', PostFeedback t] \<rparr>) \<and>
       errorsCount m' = 0)"
proof -
  have u: "itemsUnavailable exampleEnv ''c1''"
    by (simp add: itemsUnavailable_def exampleEnv_def)
  note T = failed_items_fetch_degrades_to_no_content [OF u, of exampleWorld examplePlatform]
  have h: "render (conv_id exampleConversation) = ''c1'' \<and>
        Importer_fetchCustomer exampleEnv (render (conv_customerId exampleConversation))
          (send exampleWorld (GetItems ''c1''))
          = Some (None, send (send exampleWorld (GetItems ''c1'')) (GetCustomer ''cust-1'')) \<and>
        conv_status exampleConversation \<noteq> None \<and> truthy (conv_createdAt exampleConversation)"
    by (simp add: exampleConversation_def render_def truthy_def Importer_fetchCustomer_returns
          getCustomerProfile_def followRedirects_final movedTo_def redirectTarget_def
          clientOutcome_def absentOnError_def exampleEnv_def)
  from T h have "\<exists>t m'. transformConversation examplePlatform exampleConversation (Some []) None = Inr t \<and>
       fb_content t = Some [] \<and> fb_channel t = Some ''other'' \<and>
       processConversation examplePlatform exampleEnv exampleConversation (exampleMetrics, exampleWorld)
         = Some (m', send (send (send exampleWorld (GetItems ''c1'')) (GetCustomer ''cust-1''))
                          (PostFeedback t)) \<and>
       itemsCount m' = itemsCount exampleMetrics \<and>
       ((\<exists>d. feedbackEndpoint exampleEnv t = Response d) \<longrightarrow>
           errorsCount m' = errorsCount exampleMetrics)"
    by blast
  then have "\<exists>t m'. fb_content t = Some [] \<and> fb_channel t = Some ''other'' \<and>
       processConversation examplePlatform exampleEnv exampleConversation
           (exampleMetrics, exampleWorld)
         = Some (m', exampleWorld\<lparr> requests :=
                       [GetItems ''c1'', GetCustomer ''cust-1'', PostFeedback t] \<rparr>) \<and>
       errorsCount m' = 0"
    by (auto simp: send_def exampleWorld_def exampleEnv_def exampleMetrics_def)
  with T show ?thesis by blast
qed

end
